theory Spec2Isabelle
  imports Complex_Main "HOL-Library.Word"
begin

section \<open>Data model\<close>

text \<open>
  Object ids are natural numbers and dates are milliseconds since the epoch.
  The two Mongoose schemas become records; the \<open>status\<close> enum of the assignment
  schema becomes a datatype. Both schemas set \<open>timestamps: true\<close>, hence the
  \<open>updatedAt\<close> fields. The optional \<open>grade\<close> is \<open>None\<close> while the field is absent;
  the optional \<open>feedback\<close> is \<open>None\<close> while the field is absent, \<open>Some None\<close> when it
  holds \<open>null\<close> and \<open>Some (Some s)\<close> when it holds a text. The users collection is not modelled: a reference to a user
  is the user's id, and the population of responses with names and e-mail addresses is
  left out (no request of this backend deletes a user).
\<close>

type_synonym oid = nat
type_synonym date = int

text \<open>
  The answer and the feedback of a submission are JavaScript strings, sequences of
  16-bit code units, because the schema trims them and \<open>String.prototype.trim\<close> is
  defined on code units. \<open>units\<close> gives the code units of an ASCII literal. The
  remaining texts (titles, descriptions, status names, messages) are only compared and
  copied, and stay \<open>string\<close>.
\<close>

type_synonym unit16 = "16 word"
type_synonym jsstring = "unit16 list"

definition units :: "string \<Rightarrow> jsstring" where
  "units s = map (\<lambda>c. of_nat (of_char c)) s"

datatype status = Draft | Published | Completed

record assignment =
  a_id :: oid
  title :: string
  description :: string
  dueDate :: date
  status :: status
  createdBy :: oid
  createdAt :: date
  updatedAt :: date

record submission =
  s_id :: oid
  assignmentId :: oid
  studentId :: oid
  answer :: jsstring
  submittedAt :: date
  reviewed :: bool
  grade :: "rat option"
  feedback :: "jsstring option option"
  s_createdAt :: date
  s_updatedAt :: date

text \<open>\<open>req.user\<close>: the caller identity put on the request by the authentication layer.\<close>

record user =
  userId :: oid
  role :: string

text \<open>
  The database: the two collections in insertion order, and a counter standing for the
  generation of fresh object ids.
\<close>

record db =
  assignments :: "assignment list"
  submissions :: "submission list"
  nextId :: oid

definition empty_db :: db where
  "empty_db = \<lparr>assignments = [], submissions = [], nextId = 0\<rparr>"

subsection \<open>Failures\<close>

text \<open>
  A controller fails by sending \<open>res.status(c).json({success: false, message: m})\<close>;
  the constructor records which failure it is and carries \<open>m\<close>, and \<open>http_status\<close>
  gives \<open>c\<close>. An exception that leaves the controller reaches the global error handler
  through \<open>asyncHandler\<close>; it is the value \<open>Thrown\<close>.
\<close>

datatype exn = SchemaValidationError string | DuplicateKeyError | TypeError | QueryError

datatype error =
    ValidationError string
  | NotFound string
  | Forbidden string
  | InvalidState string
  | Conflict string
  | Thrown exn

fun http_status :: "error \<Rightarrow> nat option" where
  "http_status (ValidationError m) = Some 400"
| "http_status (NotFound m) = Some 404"
| "http_status (Forbidden m) = Some 403"
| "http_status (InvalidState m) = Some 400"
| "http_status (Conflict m) = Some 400"
| "http_status (Thrown e) = None"

section \<open>Assignment controller\<close>

fun status_name :: "status \<Rightarrow> string" where
  "status_name Draft = ''Draft''"
| "status_name Published = ''Published''"
| "status_name Completed = ''Completed''"

definition status_names :: "string list" where
  "status_names = [''Draft'', ''Published'', ''Completed'']"

text \<open>Casting a string to the schema's enum; a string outside the enum fails validation.\<close>

definition parse_status :: "string \<Rightarrow> status option" where
  "parse_status s =
     (if s = ''Draft'' then Some Draft
      else if s = ''Published'' then Some Published
      else if s = ''Completed'' then Some Completed
      else None)"

definition Assignment_findById :: "db \<Rightarrow> oid \<Rightarrow> assignment option" where
  "Assignment_findById d i = find (\<lambda>a. a_id a = i) (assignments d)"

text \<open>
  \<open>doc.save()\<close> on a document loaded as \<open>old\<close> and changed in memory to \<open>new\<close>:
  nothing is written when no path was modified, otherwise the stored document is
  replaced and \<open>updatedAt\<close> is stamped.
\<close>

definition stamp_assignment :: "date \<Rightarrow> assignment \<Rightarrow> assignment \<Rightarrow> assignment" where
  "stamp_assignment now old new = (if new = old then old else new\<lparr>updatedAt := now\<rparr>)"

definition Assignment_save :: "db \<Rightarrow> date \<Rightarrow> assignment \<Rightarrow> assignment \<Rightarrow> db" where
  "Assignment_save d now old new =
     d\<lparr>assignments :=
         map (\<lambda>x. if a_id x = a_id old then stamp_assignment now old new else x) (assignments d)\<rparr>"

text \<open>The table \<open>validTransitions\<close> of \<open>updateAssignmentStatus\<close>.\<close>

fun validTransitions :: "status \<Rightarrow> string list" where
  "validTransitions Draft = [''Published'']"
| "validTransitions Published = [''Completed'']"
| "validTransitions Completed = []"

definition invalid_status_msg :: string where
  "invalid_status_msg = ''Please provide a valid status (Draft, Published, Completed)''"

definition transition_msg :: "status \<Rightarrow> string \<Rightarrow> string" where
  "transition_msg from to = ''Cannot change status from '' @ status_name from @ '' to '' @ to"

text \<open>
  \<open>updateAssignmentStatus\<close>: \<open>st\<close> is \<open>req.body.status\<close> (\<open>None\<close> when absent),
  \<open>i\<close> is \<open>req.params.id\<close>.
\<close>

definition updateAssignmentStatus ::
  "db \<Rightarrow> date \<Rightarrow> user \<Rightarrow> oid \<Rightarrow> string option \<Rightarrow> db \<times> (error + assignment)" where
  "updateAssignmentStatus d now u i st =
     (case st of
        None \<Rightarrow> (d, Inl (ValidationError invalid_status_msg))
      | Some s \<Rightarrow>
          if s = [] \<or> s \<notin> set status_names then (d, Inl (ValidationError invalid_status_msg))
          else
            (case Assignment_findById d i of
               None \<Rightarrow> (d, Inl (NotFound ''Assignment not found''))
             | Some a \<Rightarrow>
                 if createdBy a \<noteq> userId u
                 then (d, Inl (Forbidden ''Not authorized to update this assignment''))
                 else if s \<notin> set (validTransitions (status a))
                 then (d, Inl (InvalidState (transition_msg (status a) s)))
                 else
                   (case parse_status s of
                      None \<Rightarrow> (d, Inl (Thrown (SchemaValidationError ''status'')))
                    | Some t \<Rightarrow>
                        (Assignment_save d now a (a\<lparr>status := t\<rparr>),
                         Inr (stamp_assignment now a (a\<lparr>status := t\<rparr>))))))"

text \<open>
  JavaScript truthiness of an optional string field of a JSON body: \<open>undefined\<close> and
  the empty string are falsy (for a \<open>string\<close> and for a \<open>jsstring\<close> alike).
\<close>

definition truthy :: "'a list option \<Rightarrow> bool" where
  "truthy x = (case x of None \<Rightarrow> False | Some s \<Rightarrow> s \<noteq> [])"

text \<open>
  \<open>new Date(dueDate)\<close> for a truthy \<open>dueDate\<close> is either a date or \<open>Invalid Date\<close>;
  the parsing itself is taken as given.
\<close>

datatype date_in = ValidDate date | InvalidDate

record create_body =
  c_title :: "string option"
  c_description :: "string option"
  c_dueDate :: "date_in option"

record update_body =
  u_title :: "string option"
  u_description :: "string option"
  u_dueDate :: "date_in option"

text \<open>\<open>createAssignment\<close>: the schema defaults give \<open>status = Draft\<close> and \<open>createdAt = now\<close>.\<close>

definition createAssignment ::
  "db \<Rightarrow> date \<Rightarrow> user \<Rightarrow> create_body \<Rightarrow> db \<times> (error + assignment)" where
  "createAssignment d now u b =
     (if \<not> truthy (c_title b) \<or> \<not> truthy (c_description b) \<or> c_dueDate b = None
      then (d, Inl (ValidationError ''Please provide title, description, and due date''))
      else
        (case c_dueDate b of
           Some (ValidDate t) \<Rightarrow>
             (let a = \<lparr>a_id = nextId d, title = the (c_title b),
                       description = the (c_description b), dueDate = t, status = Draft,
                       createdBy = userId u, createdAt = now, updatedAt = now\<rparr>
              in (d\<lparr>assignments := assignments d @ [a], nextId := Suc (nextId d)\<rparr>, Inr a))
         | _ \<Rightarrow> (d, Inl (Thrown (SchemaValidationError ''dueDate'')))))"

text \<open>
  \<open>updateAssignment\<close>: the three \<open>if (field) assignment.field = field\<close> lines are
  \<open>apply_update\<close>; an invalid date makes \<open>save\<close> reject, and nothing is written.
\<close>

definition apply_update :: "update_body \<Rightarrow> assignment \<Rightarrow> assignment" where
  "apply_update b a =
     (let a1 = (if truthy (u_title b) then a\<lparr>title := the (u_title b)\<rparr> else a);
          a2 = (if truthy (u_description b) then a1\<lparr>description := the (u_description b)\<rparr> else a1)
      in (case u_dueDate b of Some (ValidDate t) \<Rightarrow> a2\<lparr>dueDate := t\<rparr> | _ \<Rightarrow> a2))"

definition updateAssignment ::
  "db \<Rightarrow> date \<Rightarrow> user \<Rightarrow> oid \<Rightarrow> update_body \<Rightarrow> db \<times> (error + assignment)" where
  "updateAssignment d now u i b =
     (case Assignment_findById d i of
        None \<Rightarrow> (d, Inl (NotFound ''Assignment not found''))
      | Some a \<Rightarrow>
          if createdBy a \<noteq> userId u
          then (d, Inl (Forbidden ''Not authorized to update this assignment''))
          else if status a \<noteq> Draft
          then (d, Inl (InvalidState ''Can only edit assignments in Draft status''))
          else if u_dueDate b = Some InvalidDate
          then (d, Inl (Thrown (SchemaValidationError ''dueDate'')))
          else (Assignment_save d now a (apply_update b a),
                Inr (stamp_assignment now a (apply_update b a))))"

definition deleteAssignment :: "db \<Rightarrow> user \<Rightarrow> oid \<Rightarrow> db \<times> (error + unit)" where
  "deleteAssignment d u i =
     (case Assignment_findById d i of
        None \<Rightarrow> (d, Inl (NotFound ''Assignment not found''))
      | Some a \<Rightarrow>
          if createdBy a \<noteq> userId u
          then (d, Inl (Forbidden ''Not authorized to delete this assignment''))
          else if status a \<noteq> Draft
          then (d, Inl (InvalidState ''Can only delete assignments in Draft status''))
          else (d\<lparr>assignments := filter (\<lambda>x. a_id x \<noteq> i) (assignments d)\<rparr>, Inr ()))"

subsection \<open>Listing\<close>

text \<open>
  The Mongo filter object built by \<open>getAssignments\<close> has at most the keys \<open>status\<close>
  and \<open>createdBy\<close>; a document matches when every key that is present agrees.
\<close>

record afilter =
  f_status :: "string option"
  f_createdBy :: "oid option"

definition matches :: "afilter \<Rightarrow> assignment \<Rightarrow> bool" where
  "matches f a =
     ((case f_status f of None \<Rightarrow> True | Some s \<Rightarrow> status_name (status a) = s) \<and>
      (case f_createdBy f of None \<Rightarrow> True | Some c \<Rightarrow> createdBy a = c))"

text \<open>
  \<open>q_page\<close> and \<open>q_limit\<close> are the results of \<open>parseInt\<close> (\<open>None\<close> for \<open>NaN\<close>),
  \<open>q_status\<close> is \<open>req.query.status\<close>.
\<close>

record list_query =
  q_page :: "int option"
  q_limit :: "int option"
  q_status :: "string option"

definition or_default :: "int option \<Rightarrow> int \<Rightarrow> int" where
  "or_default x dflt = (case x of None \<Rightarrow> dflt | Some n \<Rightarrow> if n = 0 then dflt else n)"

definition role_filter :: "user \<Rightarrow> string option \<Rightarrow> afilter" where
  "role_filter u qs =
     (if role u = ''student'' then \<lparr>f_status = Some ''Published'', f_createdBy = None\<rparr>
      else if role u = ''teacher'' then
        \<lparr>f_status = (if truthy qs \<and> the qs \<in> set status_names then qs else None),
         f_createdBy = Some (userId u)\<rparr>
      else \<lparr>f_status = None, f_createdBy = None\<rparr>)"

record pagination =
  currentPage :: int
  totalPages :: int
  p_totalAssignments :: int
  hasNext :: bool
  hasPrev :: bool

record list_response =
  l_count :: nat
  l_pagination :: pagination
  l_data :: "assignment list"

text \<open>
  \<open>find(filter).sort({createdAt: -1}).skip(startIndex).limit(limit)\<close>: the store rejects
  a negative skip, and a negative limit is read as its absolute value. The population of
  \<open>createdBy\<close> with the creator's name and email is not modelled.
\<close>

definition run_query :: "db \<Rightarrow> afilter \<Rightarrow> int \<Rightarrow> int \<Rightarrow> assignment list" where
  "run_query d f startIndex limit =
     take (nat \<bar>limit\<bar>)
       (drop (nat startIndex)
          (sort_key (\<lambda>a. - createdAt a) (filter (matches f) (assignments d))))"

definition getAssignments :: "db \<Rightarrow> user \<Rightarrow> list_query \<Rightarrow> error + list_response" where
  "getAssignments d u q =
     (let page = or_default (q_page q) 1;
          limit = or_default (q_limit q) 10;
          startIndex = (page - 1) * limit;
          f = role_filter u (q_status q)
      in if startIndex < 0 then Inl (Thrown QueryError)
         else
           (let found = run_query d f startIndex limit;
                total = int (length (filter (matches f) (assignments d)));
                pages = \<lceil>(of_int total :: rat) / of_int limit\<rceil>
            in Inr \<lparr>l_count = length found,
                     l_pagination = \<lparr>currentPage = page, totalPages = pages,
                                      p_totalAssignments = total, hasNext = (page < pages),
                                      hasPrev = (page > 1)\<rparr>,
                     l_data = found\<rparr>))"

section \<open>Submission controller\<close>

text \<open>
  The \<open>trim\<close> setter of the schema's string paths is \<open>String.prototype.trim\<close>: it
  removes, at both ends, the code units that are white space or line terminators of
  ECMAScript: TAB, LF, VT, FF, CR, SPACE, NO-BREAK SPACE, U+1680, U+2000 to U+200A,
  U+2028, U+2029, U+202F, U+205F, U+3000 and U+FEFF.
\<close>

definition is_space :: "unit16 \<Rightarrow> bool" where
  "is_space c =
     (c \<in> set [0x0009, 0x000A, 0x000B, 0x000C, 0x000D, 0x0020, 0x00A0, 0x1680,
                0x2000, 0x2001, 0x2002, 0x2003, 0x2004, 0x2005, 0x2006, 0x2007, 0x2008,
                0x2009, 0x200A, 0x2028, 0x2029, 0x202F, 0x205F, 0x3000, 0xFEFF])"

definition trim :: "jsstring \<Rightarrow> jsstring" where
  "trim s = rev (dropWhile is_space (rev (dropWhile is_space s)))"

definition Submission_findById :: "db \<Rightarrow> oid \<Rightarrow> submission option" where
  "Submission_findById d i = find (\<lambda>s. s_id s = i) (submissions d)"

definition Submission_findOne :: "db \<Rightarrow> oid \<Rightarrow> oid \<Rightarrow> submission option" where
  "Submission_findOne d a st = find (\<lambda>s. assignmentId s = a \<and> studentId s = st) (submissions d)"

text \<open>
  \<open>Submission.create({assignmentId, studentId, answer})\<close> under the submission schema:
  \<open>answer\<close> is trimmed and then required to be non-empty, \<open>submittedAt\<close> defaults to the
  current time, \<open>reviewed\<close> defaults to \<open>false\<close>, \<open>grade\<close> and \<open>feedback\<close> have no
  default, and the unique index on \<open>(assignmentId, studentId)\<close> rejects a second document
  for a pair.
\<close>

definition new_submission ::
  "db \<Rightarrow> date \<Rightarrow> oid \<Rightarrow> oid \<Rightarrow> jsstring \<Rightarrow> submission" where
  "new_submission d now a st ans =
     \<lparr>s_id = nextId d, assignmentId = a, studentId = st, answer = trim ans,
      submittedAt = now, reviewed = False, grade = None, feedback = None,
      s_createdAt = now, s_updatedAt = now\<rparr>"

definition Submission_create ::
  "db \<Rightarrow> date \<Rightarrow> oid \<Rightarrow> oid \<Rightarrow> jsstring \<Rightarrow> db \<times> (error + submission)" where
  "Submission_create d now a st ans =
     (if trim ans = [] then (d, Inl (Thrown (SchemaValidationError ''answer'')))
      else if Submission_findOne d a st \<noteq> None then (d, Inl (Thrown DuplicateKeyError))
      else (d\<lparr>submissions := submissions d @ [new_submission d now a st ans],
               nextId := Suc (nextId d)\<rparr>,
            Inr (new_submission d now a st ans)))"

record submit_body =
  b_assignmentId :: "oid option"
  b_answer :: "jsstring option"

text \<open>\<open>createSubmission\<close>; the population of the response with names is not modelled.\<close>

definition createSubmission ::
  "db \<Rightarrow> date \<Rightarrow> user \<Rightarrow> submit_body \<Rightarrow> db \<times> (error + submission)" where
  "createSubmission d now u b =
     (case b_assignmentId b of
        None \<Rightarrow> (d, Inl (ValidationError ''Please provide assignment ID and answer''))
      | Some a \<Rightarrow>
          if \<not> truthy (b_answer b)
          then (d, Inl (ValidationError ''Please provide assignment ID and answer''))
          else
            (case Assignment_findById d a of
               None \<Rightarrow> (d, Inl (NotFound ''Assignment not found''))
             | Some asg \<Rightarrow>
                 if status asg \<noteq> Published
                 then (d, Inl (InvalidState ''Assignment is not available for submission''))
                 else if now > dueDate asg
                 then (d, Inl (InvalidState
                    ''Assignment due date has passed. Submissions are no longer accepted.''))
                 else if Submission_findOne d a (userId u) \<noteq> None
                 then (d, Inl (Conflict ''You have already submitted this assignment''))
                 else Submission_create d now a (userId u) (the (b_answer b))))"

subsection \<open>Review\<close>

text \<open>
  A value of a JSON request body, as far as \<open>typeof\<close> and the comparisons of
  \<open>reviewSubmission\<close> tell values apart; numbers are exact rationals.
\<close>

datatype jsval = JNull | JBool bool | JNumber rat | JString string | JOther

text \<open>
  \<open>b_grade\<close> is \<open>None\<close> when \<open>grade\<close> is \<open>undefined\<close>. \<open>b_feedback\<close> is \<open>None\<close> when
  \<open>feedback\<close> is \<open>undefined\<close>, \<open>Some None\<close> for \<open>null\<close> and \<open>Some (Some s)\<close> for a string.
\<close>

record review_body =
  b_grade :: "jsval option"
  b_feedback :: "jsstring option option"

record review_report =
  submissionId :: oid
  assignmentTitle :: string
  rr_grade :: "rat option"
  rr_feedback :: "jsstring option option"
  rr_reviewed :: bool

definition stamp_submission :: "date \<Rightarrow> submission \<Rightarrow> submission \<Rightarrow> submission" where
  "stamp_submission now old new = (if new = old then old else new\<lparr>s_updatedAt := now\<rparr>)"

definition Submission_save :: "db \<Rightarrow> date \<Rightarrow> submission \<Rightarrow> submission \<Rightarrow> db" where
  "Submission_save d now old new =
     d\<lparr>submissions :=
         map (\<lambda>x. if s_id x = s_id old then stamp_submission now old new else x) (submissions d)\<rparr>"

definition set_feedback :: "jsstring option option \<Rightarrow> submission \<Rightarrow> submission" where
  "set_feedback f s =
     (case f of None \<Rightarrow> s | Some v \<Rightarrow> s\<lparr>feedback := Some (map_option trim v)\<rparr>)"

definition review_result :: "db \<Rightarrow> date \<Rightarrow> assignment \<Rightarrow> submission \<Rightarrow> submission \<Rightarrow>
    db \<times> (error + review_report)" where
  "review_result d now asg old new =
     (let saved = stamp_submission now old new
      in (Submission_save d now old new,
          Inr \<lparr>submissionId = s_id saved, assignmentTitle = title asg, rr_grade = grade saved,
               rr_feedback = feedback saved, rr_reviewed = reviewed saved\<rparr>))"

text \<open>
  \<open>reviewSubmission\<close>: \<open>i\<close> is \<open>req.params.id\<close>. When the referenced assignment is gone
  the populated \<open>assignmentId\<close> is \<open>null\<close> and reading \<open>createdBy\<close> throws.
\<close>

definition reviewSubmission ::
  "db \<Rightarrow> date \<Rightarrow> user \<Rightarrow> oid \<Rightarrow> review_body \<Rightarrow> db \<times> (error + review_report)" where
  "reviewSubmission d now u i b =
     (case Submission_findById d i of
        None \<Rightarrow> (d, Inl (NotFound ''Submission not found''))
      | Some sub \<Rightarrow>
          (case Assignment_findById d (assignmentId sub) of
             None \<Rightarrow> (d, Inl (Thrown TypeError))
           | Some asg \<Rightarrow>
               if createdBy asg \<noteq> userId u
               then (d, Inl (Forbidden ''Not authorized to review this submission''))
               else
                 (case b_grade b of
                    None \<Rightarrow>
                      review_result d now asg sub
                        ((set_feedback (b_feedback b) sub)\<lparr>reviewed := True\<rparr>)
                  | Some (JNumber g) \<Rightarrow>
                      if g < 0 \<or> g > 100
                      then (d, Inl (ValidationError ''Grade must be a number between 0 and 100''))
                      else review_result d now asg sub
                        ((set_feedback (b_feedback b) (sub\<lparr>grade := Some g\<rparr>))\<lparr>reviewed := True\<rparr>)
                  | Some _ \<Rightarrow>
                      (d, Inl (ValidationError ''Grade must be a number between 0 and 100'')))))"

section \<open>Analytics\<close>

text \<open>One group of the \<open>$group\<close> stage, keyed by \<open>assignmentId\<close>.\<close>

record stat =
  g_id :: oid
  g_totalSubmissions :: int
  g_reviewedSubmissions :: int
  g_averageGrade :: "rat option"

text \<open>
  \<open>$avg\<close> ignores the operands that are not numbers and is \<open>null\<close> when none is left;
  the operand \<open>$cond: [{$ne: ['$grade', null]}, '$grade', null]\<close> is the grade itself.
\<close>

definition avg :: "rat option list \<Rightarrow> rat option" where
  "avg xs =
     (let ns = concat (map (\<lambda>x. case x of None \<Rightarrow> [] | Some g \<Rightarrow> [g]) xs)
      in if ns = [] then None else Some (sum_list ns / of_nat (length ns)))"

definition group_stat :: "oid \<Rightarrow> submission list \<Rightarrow> stat" where
  "group_stat k ss =
     \<lparr>g_id = k,
      g_totalSubmissions = sum_list (map (\<lambda>s. 1) ss),
      g_reviewedSubmissions = sum_list (map (\<lambda>s. if reviewed s = True then 1 else 0) ss),
      g_averageGrade = avg (map (\<lambda>s. if grade s \<noteq> None then grade s else None) ss)\<rparr>"

definition aggregate :: "db \<Rightarrow> oid list \<Rightarrow> stat list" where
  "aggregate d ids =
     (let matched = filter (\<lambda>s. assignmentId s \<in> set ids) (submissions d)
      in map (\<lambda>k. group_stat k (filter (\<lambda>s. assignmentId s = k) matched))
           (remdups (map assignmentId matched)))"

text \<open>
  \<open>Math.round(x * 100) / 100\<close>, in exact arithmetic; \<open>Math.round\<close> rounds a tie
  upwards. The code computes in IEEE doubles, so the two differ where \<open>x * 100\<close> is not
  exact as a double (an average of \<open>1.005\<close> gives \<open>1\<close> there and \<open>1.01\<close> here).
\<close>

definition round2 :: "rat \<Rightarrow> rat" where
  "round2 x = of_int \<lfloor>x * 100 + 1 / 2\<rfloor> / 100"

record row =
  r_assignmentId :: oid
  r_title :: string
  r_status :: status
  r_dueDate :: date
  totalSubmissions :: int
  reviewedSubmissions :: int
  pendingReviews :: int
  averageGrade :: "rat option"

record overview =
  totalAssignments :: nat
  o_totalSubmissions :: int
  totalReviewed :: int
  o_pendingReviews :: int

record analytics =
  an_overview :: overview
  assignmentAnalytics :: "row list"

text \<open>
  The row of one assignment. \<open>stats.averageGrade ? ... : null\<close> tests the truthiness of
  the average: \<open>null\<close> and \<open>0\<close> both take the \<open>null\<close> branch.
\<close>

definition analytics_row :: "stat list \<Rightarrow> assignment \<Rightarrow> row" where
  "analytics_row submissionStats a =
     (let stats = (case find (\<lambda>st. g_id st = a_id a) submissionStats of
                     Some st \<Rightarrow> st
                   | None \<Rightarrow> \<lparr>g_id = a_id a, g_totalSubmissions = 0,
                               g_reviewedSubmissions = 0, g_averageGrade = None\<rparr>)
      in \<lparr>r_assignmentId = a_id a, r_title = title a, r_status = status a,
          r_dueDate = dueDate a,
          totalSubmissions = g_totalSubmissions stats,
          reviewedSubmissions = g_reviewedSubmissions stats,
          pendingReviews = g_totalSubmissions stats - g_reviewedSubmissions stats,
          averageGrade =
            (case g_averageGrade stats of
               None \<Rightarrow> None
             | Some x \<Rightarrow> if x = 0 then None else Some (round2 x))\<rparr>)"

definition getAnalytics :: "db \<Rightarrow> user \<Rightarrow> analytics" where
  "getAnalytics d u =
     (let owned = filter (\<lambda>a. createdBy a = userId u) (assignments d);
          assignmentIds = map a_id owned;
          submissionStats = aggregate d assignmentIds;
          rows = map (analytics_row submissionStats) owned;
          total = foldl (\<lambda>sum st. sum + g_totalSubmissions st) 0 submissionStats;
          rev_total = foldl (\<lambda>sum st. sum + g_reviewedSubmissions st) 0 submissionStats
      in \<lparr>an_overview = \<lparr>totalAssignments = length owned, o_totalSubmissions = total,
                           totalReviewed = rev_total, o_pendingReviews = total - rev_total\<rparr>,
          assignmentAnalytics = rows\<rparr>)"

section \<open>The store as a state machine\<close>

text \<open>The six requests that write, and the store after each (failed requests write nothing).\<close>

datatype request =
    CreateAssignment user create_body
  | UpdateAssignment user oid update_body
  | DeleteAssignment user oid
  | UpdateAssignmentStatus user oid "string option"
  | CreateSubmission user submit_body
  | ReviewSubmission user oid review_body

fun step :: "db \<Rightarrow> date \<times> request \<Rightarrow> db" where
  "step d (now, CreateAssignment u b) = fst (createAssignment d now u b)"
| "step d (now, UpdateAssignment u i b) = fst (updateAssignment d now u i b)"
| "step d (now, DeleteAssignment u i) = fst (deleteAssignment d u i)"
| "step d (now, UpdateAssignmentStatus u i s) = fst (updateAssignmentStatus d now u i s)"
| "step d (now, CreateSubmission u b) = fst (createSubmission d now u b)"
| "step d (now, ReviewSubmission u i b) = fst (reviewSubmission d now u i b)"

definition run :: "db \<Rightarrow> (date \<times> request) list \<Rightarrow> db" where
  "run d rs = foldl step d rs"

text \<open>Store invariants: ids are unique and below the counter; one submission per pair.\<close>

definition wf :: "db \<Rightarrow> bool" where
  "wf d \<longleftrightarrow>
     distinct (map a_id (assignments d)) \<and> distinct (map s_id (submissions d)) \<and>
     list_all (\<lambda>a. a_id a < nextId d) (assignments d) \<and>
     list_all (\<lambda>s. s_id s < nextId d) (submissions d)"

definition unique_pairs :: "db \<Rightarrow> bool" where
  "unique_pairs d \<longleftrightarrow> distinct (map (\<lambda>s. (assignmentId s, studentId s)) (submissions d))"

definition reviewed_in :: "db \<Rightarrow> oid \<Rightarrow> bool" where
  "reviewed_in d i = (case Submission_findById d i of None \<Rightarrow> False | Some s \<Rightarrow> reviewed s)"

section \<open>Example data\<close>

definition ex_teacher :: user where
  "ex_teacher = \<lparr>userId = 1, role = ''teacher''\<rparr>"

definition ex_student :: user where
  "ex_student = \<lparr>userId = 2, role = ''student''\<rparr>"

definition ex_draft :: assignment where
  "ex_draft = \<lparr>a_id = 10, title = ''Essay'', description = ''Write'', dueDate = 500,
                status = Draft, createdBy = 1, createdAt = 100, updatedAt = 100\<rparr>"

definition ex_published :: assignment where
  "ex_published = \<lparr>a_id = 11, title = ''Quiz'', description = ''Solve'', dueDate = 500,
                    status = Published, createdBy = 1, createdAt = 110, updatedAt = 120\<rparr>"

definition ex_submission :: submission where
  "ex_submission = \<lparr>s_id = 20, assignmentId = 11, studentId = 2, answer = units ''42'',
                     submittedAt = 200, reviewed = False, grade = None, feedback = None,
                     s_createdAt = 200, s_updatedAt = 200\<rparr>"

definition ex_db :: db where
  "ex_db = \<lparr>assignments = [ex_draft, ex_published], submissions = [ex_submission],
             nextId = 21\<rparr>"

definition ex_update :: update_body where
  "ex_update = \<lparr>u_title = Some ''Report'', u_description = None, u_dueDate = None\<rparr>"

definition ex_review_none :: review_body where
  "ex_review_none = \<lparr>b_grade = None, b_feedback = None\<rparr>"

definition ex_review_150 :: review_body where
  "ex_review_150 = \<lparr>b_grade = Some (JNumber 150), b_feedback = Some (Some (units ''late''))\<rparr>"

definition ex_reviewed_db :: db where
  "ex_reviewed_db = ex_db\<lparr>submissions := [ex_submission\<lparr>reviewed := True\<rparr>]\<rparr>"

definition ex_submit :: submit_body where
  "ex_submit = \<lparr>b_assignmentId = Some 11, b_answer = Some (units ''again'')\<rparr>"

definition ex_other_student :: user where
  "ex_other_student = \<lparr>userId = 3, role = ''student''\<rparr>"

definition ex_blank :: submit_body where
  "ex_blank = \<lparr>b_assignmentId = Some 11, b_answer = Some [0x0020]\<rparr>"

definition ex_query :: list_query where
  "ex_query = \<lparr>q_page = None, q_limit = None, q_status = Some ''Draft''\<rparr>"

definition ex_query_invalid :: list_query where
  "ex_query_invalid = \<lparr>q_page = None, q_limit = None, q_status = Some ''Archived''\<rparr>"

definition ex_report_db :: db where
  "ex_report_db =
     \<lparr>assignments = [ex_published, ex_draft],
      submissions =
        [ex_submission\<lparr>reviewed := True, grade := Some 80\<rparr>,
         ex_submission\<lparr>s_id := 21, studentId := 3, reviewed := True, grade := Some 90\<rparr>,
         ex_submission\<lparr>s_id := 22, studentId := 4\<rparr>],
      nextId = 23\<rparr>"

definition ex_zero_db :: db where
  "ex_zero_db =
     \<lparr>assignments = [ex_published],
      submissions = [ex_submission\<lparr>reviewed := True, grade := Some 0\<rparr>],
      nextId = 21\<rparr>"

section \<open>Basic facts\<close>

lemma units_eq_Nil [simp]: "units s = [] \<longleftrightarrow> s = []"
  by (simp add: units_def)

lemma status_name_in_names: "status_name t \<in> set status_names"
  by (cases t) (simp_all add: status_names_def)

lemma status_name_nonempty: "status_name t \<noteq> []"
  by (cases t) simp_all

lemma parse_status_name: "parse_status (status_name t) = Some t"
  by (cases t) (simp_all add: parse_status_def)

lemma validTransitions_iff:
  "status_name t \<in> set (validTransitions s) \<longleftrightarrow>
     (s = Draft \<and> t = Published) \<or> (s = Published \<and> t = Completed)"
  by (cases s; cases t) simp_all

lemma Assignment_findById_id: "Assignment_findById d i = Some a \<Longrightarrow> a_id a = i"
  by (auto simp: Assignment_findById_def find_Some_iff)

lemma Assignment_findById_mem: "Assignment_findById d i = Some a \<Longrightarrow> a \<in> set (assignments d)"
  by (auto simp: Assignment_findById_def find_Some_iff)

lemma find_map_replace:
  assumes "find (\<lambda>x. key x = i) xs = Some a" and "key b = i"
  shows "find (\<lambda>x. key x = i) (map (\<lambda>x. if key x = i then b else x) xs) = Some b"
  using assms by (induction xs) (auto split: if_splits)

lemma find_map_other:
  assumes "key b = i" and "j \<noteq> i"
  shows "find (\<lambda>x. key x = j) (map (\<lambda>x. if key x = i then b else x) xs)
       = find (\<lambda>x. key x = j) xs"
  using assms by (induction xs) auto

lemma stamp_assignment_id:
  "a_id new = a_id old \<Longrightarrow> a_id (stamp_assignment now old new) = a_id old"
  by (simp add: stamp_assignment_def)

lemma stamp_assignment_status: "status (stamp_assignment now old new) = status new"
  by (auto simp: stamp_assignment_def)

lemma Assignment_findById_save:
  assumes "Assignment_findById d i = Some a" and "a_id new = a_id a"
  shows "Assignment_findById (Assignment_save d now a new) i = Some (stamp_assignment now a new)"
proof -
  have i: "a_id a = i"
    using assms(1) by (rule Assignment_findById_id)
  have "a_id (stamp_assignment now a new) = i"
    using assms(2) i by (simp add: stamp_assignment_id)
  with assms(1) i show ?thesis
    unfolding Assignment_findById_def Assignment_save_def
    by (simp add: find_map_replace)
qed

section \<open>Status transitions\<close>

lemma updateAssignmentStatus_owner:
  assumes "Assignment_findById d i = Some a" and "createdBy a = userId u"
  shows "updateAssignmentStatus d now u i (Some (status_name t)) =
     (if (status a = Draft \<and> t = Published) \<or> (status a = Published \<and> t = Completed)
      then (Assignment_save d now a (a\<lparr>status := t\<rparr>),
            Inr (stamp_assignment now a (a\<lparr>status := t\<rparr>)))
      else (d, Inl (InvalidState
              (''Cannot change status from '' @ status_name (status a) @ '' to '' @ status_name t))))"
  using assms
  by (simp add: updateAssignmentStatus_def status_name_in_names status_name_nonempty
      parse_status_name parse_status_def validTransitions_iff transition_msg_def)

lemma updateAssignmentStatus_success:
  assumes "snd (updateAssignmentStatus d now u i st) = Inr a'"
  shows "\<exists>a t. Assignment_findById d i = Some a \<and> createdBy a = userId u \<and>
           st = Some (status_name t) \<and> status a' = t \<and>
           ((status a = Draft \<and> t = Published) \<or> (status a = Published \<and> t = Completed))"
proof -
  from assms obtain s a t where st: "st = Some s" and f: "Assignment_findById d i = Some a"
    and own: "createdBy a = userId u" and v: "s \<in> set (validTransitions (status a))"
    and p: "parse_status s = Some t" and a': "a' = stamp_assignment now a (a\<lparr>status := t\<rparr>)"
    by (auto simp: updateAssignmentStatus_def split: option.splits if_splits)
  from p have s: "s = status_name t"
    by (auto simp: parse_status_def split: if_splits)
  with v have "(status a = Draft \<and> t = Published) \<or> (status a = Published \<and> t = Completed)"
    by (simp add: validTransitions_iff)
  with st f own s a' show ?thesis
    by (simp add: stamp_assignment_status)
qed

text \<open>
  Claim C1. Let assignment \<open>i\<close> exist with current status \<open>status a\<close>, and let the
  caller own it. For a target status \<open>t\<close>, \<open>updateAssignmentStatus\<close> succeeds exactly
  when the pair is Draft to Published or Published to Completed, and then the stored
  assignment has status \<open>t\<close>. For every other pair it fails as an invalid state with the
  message \<open>Cannot change status from <current> to <target>\<close> and the store, hence the
  status of the assignment, is unchanged. Whatever the caller and the request body, a
  success is one of the two transitions.
\<close>

theorem updateAssignmentStatus_transition_table:
  assumes "Assignment_findById d i = Some a"
  shows "(createdBy a = userId u \<and>
            ((status a = Draft \<and> t = Published) \<or> (status a = Published \<and> t = Completed)) \<longrightarrow>
            (\<exists>a'. updateAssignmentStatus d now u i (Some (status_name t))
                     = (Assignment_save d now a (a\<lparr>status := t\<rparr>), Inr a') \<and>
                   status a' = t \<and>
                   Assignment_findById (Assignment_save d now a (a\<lparr>status := t\<rparr>)) i = Some a'))
       \<and> (createdBy a = userId u \<and>
            \<not> ((status a = Draft \<and> t = Published) \<or> (status a = Published \<and> t = Completed)) \<longrightarrow>
            updateAssignmentStatus d now u i (Some (status_name t))
              = (d, Inl (InvalidState (''Cannot change status from '' @ status_name (status a)
                                        @ '' to '' @ status_name t))))
       \<and> (\<forall>a'. snd (updateAssignmentStatus d now u i st) = Inr a' \<longrightarrow>
            (\<exists>t'. st = Some (status_name t') \<and> status a' = t' \<and>
               ((status a = Draft \<and> t' = Published) \<or> (status a = Published \<and> t' = Completed))))"
proof (intro conjI impI allI)
  assume h: "createdBy a = userId u \<and>
    ((status a = Draft \<and> t = Published) \<or> (status a = Published \<and> t = Completed))"
  let ?new = "a\<lparr>status := t\<rparr>"
  have r: "updateAssignmentStatus d now u i (Some (status_name t))
      = (Assignment_save d now a ?new, Inr (stamp_assignment now a ?new))"
    using updateAssignmentStatus_owner [OF assms, where u = u and t = t and now = now] h by simp
  have f: "Assignment_findById (Assignment_save d now a ?new) i = Some (stamp_assignment now a ?new)"
    using assms by (rule Assignment_findById_save) simp
  show "\<exists>a'. updateAssignmentStatus d now u i (Some (status_name t))
                = (Assignment_save d now a ?new, Inr a') \<and>
              status a' = t \<and> Assignment_findById (Assignment_save d now a ?new) i = Some a'"
    using r f by (simp add: stamp_assignment_status)
next
  assume h: "createdBy a = userId u \<and>
    \<not> ((status a = Draft \<and> t = Published) \<or> (status a = Published \<and> t = Completed))"
  then show "updateAssignmentStatus d now u i (Some (status_name t))
      = (d, Inl (InvalidState (''Cannot change status from '' @ status_name (status a)
                                @ '' to '' @ status_name t)))"
    using updateAssignmentStatus_owner [OF assms, where u = u and t = t and now = now] by simp
next
  fix a'
  assume "snd (updateAssignmentStatus d now u i st) = Inr a'"
  from updateAssignmentStatus_success [OF this] assms
  show "\<exists>t'. st = Some (status_name t') \<and> status a' = t' \<and>
          ((status a = Draft \<and> t' = Published) \<or> (status a = Published \<and> t' = Completed))"
    by auto
qed

theorem updateAssignmentStatus_transition_table_witness:
  "Assignment_findById ex_db 10 = Some ex_draft \<and>
   updateAssignmentStatus ex_db 300 ex_teacher 10 (Some ''Completed'')
     = (ex_db, Inl (InvalidState ''Cannot change status from Draft to Completed''))"
proof -
  have f: "Assignment_findById ex_db 10 = Some ex_draft"
    by (simp add: Assignment_findById_def ex_db_def ex_draft_def ex_published_def)
  have o: "createdBy ex_draft = userId ex_teacher" and s: "status ex_draft = Draft"
    by (simp_all add: ex_draft_def ex_teacher_def)
  show ?thesis
    using updateAssignmentStatus_transition_table [OF f, where u = ex_teacher and t = Completed and now = 300] f o s
    by simp
qed

section \<open>Assignment update\<close>

lemma apply_update_frame:
  "a_id (apply_update b a) = a_id a \<and> status (apply_update b a) = status a \<and>
   createdBy (apply_update b a) = createdBy a \<and> createdAt (apply_update b a) = createdAt a"
  by (simp add: apply_update_def Let_def split: option.splits date_in.splits)

lemma apply_update_title:
  "title (apply_update b a) = (if truthy (u_title b) then the (u_title b) else title a)"
  by (simp add: apply_update_def Let_def split: option.splits date_in.splits)

lemma apply_update_description:
  "description (apply_update b a) = (if truthy (u_description b) then the (u_description b) else description a)"
  by (simp add: apply_update_def Let_def split: option.splits date_in.splits)

lemma apply_update_dueDate:
  "dueDate (apply_update b a) = (case u_dueDate b of Some (ValidDate t) \<Rightarrow> t | _ \<Rightarrow> dueDate a)"
  by (simp add: apply_update_def Let_def split: option.splits date_in.splits)

lemma stamp_assignment_fields:
  "a_id (stamp_assignment now old new) = a_id new"
  "title (stamp_assignment now old new) = title new"
  "description (stamp_assignment now old new) = description new"
  "dueDate (stamp_assignment now old new) = dueDate new"
  "createdBy (stamp_assignment now old new) = createdBy new"
  "createdAt (stamp_assignment now old new) = createdAt new"
  by (auto simp: stamp_assignment_def)

lemma Assignment_findById_save_other:
  assumes "a_id new = a_id a" and "j \<noteq> a_id a"
  shows "Assignment_findById (Assignment_save d now a new) j = Assignment_findById d j"
proof -
  have "a_id (stamp_assignment now a new) = a_id a"
    using assms(1) by (simp add: stamp_assignment_fields)
  then show ?thesis
    unfolding Assignment_findById_def Assignment_save_def
    using assms(2) by (simp add: find_map_other)
qed

lemma updateAssignment_success:
  assumes "updateAssignment d now u i b = (d', Inr a')" and "Assignment_findById d i = Some a"
  shows "d' = Assignment_save d now a (apply_update b a) \<and> a' = stamp_assignment now a (apply_update b a)
     \<and> createdBy a = userId u \<and> status a = Draft \<and> u_dueDate b \<noteq> Some InvalidDate"
  using assms by (auto simp: updateAssignment_def split: if_splits)

text \<open>
  Claim C9. A successful \<open>updateAssignment\<close> on assignment \<open>i\<close> keeps its id, status,
  creator and creation date; each of title, description and due date keeps its prior
  value when the field is omitted from the body, and when it does change the new value is
  the supplied one. The stored assignment is the returned one, every other assignment
  and every submission is untouched.
\<close>

theorem updateAssignment_frame:
  assumes "updateAssignment d now u i b = (d', Inr a')" and "Assignment_findById d i = Some a"
  shows "a_id a' = a_id a \<and> status a' = status a \<and> createdBy a' = createdBy a \<and>
         createdAt a' = createdAt a \<and>
         (u_title b = None \<longrightarrow> title a' = title a) \<and>
         (u_description b = None \<longrightarrow> description a' = description a) \<and>
         (u_dueDate b = None \<longrightarrow> dueDate a' = dueDate a) \<and>
         (title a' = title a \<or> u_title b = Some (title a')) \<and>
         (description a' = description a \<or> u_description b = Some (description a')) \<and>
         (dueDate a' = dueDate a \<or> u_dueDate b = Some (ValidDate (dueDate a'))) \<and>
         Assignment_findById d' i = Some a' \<and>
         (\<forall>j. j \<noteq> i \<longrightarrow> Assignment_findById d' j = Assignment_findById d j) \<and>
         submissions d' = submissions d"
proof -
  let ?new = "apply_update b a"
  from updateAssignment_success [OF assms]
  have d': "d' = Assignment_save d now a ?new" and a': "a' = stamp_assignment now a ?new"
    by simp_all
  have i: "a_id a = i" using assms(2) by (rule Assignment_findById_id)
  have idn: "a_id ?new = a_id a" by (simp add: apply_update_frame)
  have f1: "Assignment_findById d' i = Some a'"
    unfolding d' a' using assms(2) idn by (rule Assignment_findById_save)
  have f2: "\<forall>j. j \<noteq> i \<longrightarrow> Assignment_findById d' j = Assignment_findById d j"
    unfolding d' using idn i by (simp add: Assignment_findById_save_other)
  have s: "submissions d' = submissions d"
    unfolding d' by (simp add: Assignment_save_def)
  have fr: "a_id a' = a_id a \<and> status a' = status a \<and> createdBy a' = createdBy a \<and>
         createdAt a' = createdAt a"
    unfolding a' by (simp add: stamp_assignment_fields stamp_assignment_status apply_update_frame)
  have t: "(u_title b = None \<longrightarrow> title a' = title a) \<and> (title a' = title a \<or> u_title b = Some (title a'))"
    unfolding a' by (auto simp: stamp_assignment_fields apply_update_title truthy_def split: option.splits)
  have de: "(u_description b = None \<longrightarrow> description a' = description a) \<and>
      (description a' = description a \<or> u_description b = Some (description a'))"
    unfolding a' by (auto simp: stamp_assignment_fields apply_update_description truthy_def split: option.splits)
  have du: "(u_dueDate b = None \<longrightarrow> dueDate a' = dueDate a) \<and>
      (dueDate a' = dueDate a \<or> u_dueDate b = Some (ValidDate (dueDate a')))"
    unfolding a' by (auto simp: stamp_assignment_fields apply_update_dueDate split: option.splits date_in.splits)
  from fr t de du f1 f2 s show ?thesis by blast
qed

theorem updateAssignment_frame_witness:
  "updateAssignment ex_db 300 ex_teacher 10 ex_update
     = (ex_db\<lparr>assignments := [ex_draft\<lparr>title := ''Report'', updatedAt := 300\<rparr>, ex_published]\<rparr>,
        Inr (ex_draft\<lparr>title := ''Report'', updatedAt := 300\<rparr>)) \<and>
   description (ex_draft\<lparr>title := ''Report'', updatedAt := 300\<rparr>) = description ex_draft \<and>
   status (ex_draft\<lparr>title := ''Report'', updatedAt := 300\<rparr>) = status ex_draft"
proof -
  have f: "Assignment_findById ex_db 10 = Some ex_draft"
    by (simp add: Assignment_findById_def ex_db_def ex_draft_def ex_published_def)
  have r: "updateAssignment ex_db 300 ex_teacher 10 ex_update
     = (ex_db\<lparr>assignments := [ex_draft\<lparr>title := ''Report'', updatedAt := 300\<rparr>, ex_published]\<rparr>,
        Inr (ex_draft\<lparr>title := ''Report'', updatedAt := 300\<rparr>))"
    unfolding updateAssignment_def f
    by (simp add: Assignment_save_def stamp_assignment_def apply_update_def
        truthy_def ex_update_def ex_teacher_def ex_db_def ex_draft_def ex_published_def)
  from updateAssignment_frame [OF r f] r show ?thesis
    by (simp add: ex_update_def)
qed

section \<open>Review\<close>

lemma Submission_findById_id: "Submission_findById d i = Some s \<Longrightarrow> s_id s = i"
  by (auto simp: Submission_findById_def find_Some_iff)

lemma Submission_findById_mem: "Submission_findById d i = Some s \<Longrightarrow> s \<in> set (submissions d)"
  by (auto simp: Submission_findById_def find_Some_iff)

lemma stamp_submission_fields:
  "s_id (stamp_submission now old new) = s_id new"
  "assignmentId (stamp_submission now old new) = assignmentId new"
  "studentId (stamp_submission now old new) = studentId new"
  "answer (stamp_submission now old new) = answer new"
  "submittedAt (stamp_submission now old new) = submittedAt new"
  "reviewed (stamp_submission now old new) = reviewed new"
  "grade (stamp_submission now old new) = grade new"
  "feedback (stamp_submission now old new) = feedback new"
  by (auto simp: stamp_submission_def)

lemma set_feedback_fields:
  "s_id (set_feedback f s) = s_id s"
  "assignmentId (set_feedback f s) = assignmentId s"
  "studentId (set_feedback f s) = studentId s"
  "answer (set_feedback f s) = answer s"
  "submittedAt (set_feedback f s) = submittedAt s"
  "reviewed (set_feedback f s) = reviewed s"
  "grade (set_feedback f s) = grade s"
  by (simp_all add: set_feedback_def split: option.splits)

lemma set_feedback_feedback:
  "feedback (set_feedback f s)
     = (case f of None \<Rightarrow> feedback s | Some v \<Rightarrow> Some (map_option trim v))"
  by (simp add: set_feedback_def split: option.splits)

lemma Submission_findById_save:
  assumes "Submission_findById d i = Some s" and "s_id new = s_id s"
  shows "Submission_findById (Submission_save d now s new) i = Some (stamp_submission now s new)"
proof -
  have i: "s_id s = i"
    using assms(1) by (rule Submission_findById_id)
  have "s_id (stamp_submission now s new) = i"
    using assms(2) i by (simp add: stamp_submission_fields)
  with assms(1) i show ?thesis
    unfolding Submission_findById_def Submission_save_def
    by (simp add: find_map_replace)
qed

lemma Submission_findById_save_other:
  assumes "s_id new = s_id s" and "j \<noteq> s_id s"
  shows "Submission_findById (Submission_save d now s new) j = Submission_findById d j"
proof -
  have "s_id (stamp_submission now s new) = s_id s"
    using assms(1) by (simp add: stamp_submission_fields)
  then show ?thesis
    unfolding Submission_findById_def Submission_save_def
    using assms(2) by (simp add: find_map_other)
qed

lemma reviewSubmission_success:
  assumes "reviewSubmission d now u i b = (d', Inr r)" and "Submission_findById d i = Some sub"
  shows "\<exists>asg new. Assignment_findById d (assignmentId sub) = Some asg \<and> createdBy asg = userId u \<and>
      d' = Submission_save d now sub new \<and>
      new = (set_feedback (b_feedback b) (sub\<lparr>grade := (case b_grade b of None \<Rightarrow> grade sub | Some v \<Rightarrow> (case v of JNumber g \<Rightarrow> Some g | _ \<Rightarrow> grade sub))\<rparr>))\<lparr>reviewed := True\<rparr> \<and>
      (b_grade b = None \<or> (\<exists>g. b_grade b = Some (JNumber g) \<and> 0 \<le> g \<and> g \<le> 100)) \<and>
      r = \<lparr>submissionId = s_id sub, assignmentTitle = title asg, rr_grade = grade new,
               rr_feedback = feedback new, rr_reviewed = True\<rparr>"
  using assms
  by (auto simp: reviewSubmission_def review_result_def Let_def stamp_submission_fields set_feedback_fields
      split: option.splits if_splits jsval.splits)

lemma ex_find_submission: "Submission_findById ex_db 20 = Some ex_submission"
  by (simp add: Submission_findById_def ex_db_def ex_submission_def)

lemma ex_find_published: "Assignment_findById ex_db 11 = Some ex_published"
  by (simp add: Assignment_findById_def ex_db_def ex_draft_def ex_published_def)

lemma ex_find_draft: "Assignment_findById ex_db 10 = Some ex_draft"
  by (simp add: Assignment_findById_def ex_db_def ex_draft_def ex_published_def)

text \<open>
  Claim C6. After a successful \<open>reviewSubmission\<close> of submission \<open>i\<close> the stored
  submission has \<open>reviewed = true\<close>, whatever the body supplied. Its grade is the prior
  grade when no grade was supplied and the supplied number otherwise; its feedback is the
  prior feedback when none was supplied and the supplied value otherwise (a text,
  trimmed, or \<open>null\<close>). The other fields of the submission and all other submissions
  are untouched, and the report returns the stored grade, feedback and flag.
\<close>

theorem reviewSubmission_marks_reviewed:
  assumes "reviewSubmission d now u i b = (d', Inr r)" and "Submission_findById d i = Some sub"
  shows "\<exists>sub'. Submission_findById d' i = Some sub' \<and> reviewed sub' = True \<and>
           (b_grade b = None \<longrightarrow> grade sub' = grade sub) \<and>
           (\<forall>v. b_grade b = Some v \<longrightarrow> (\<exists>g. v = JNumber g \<and> grade sub' = Some g)) \<and>
           (b_feedback b = None \<longrightarrow> feedback sub' = feedback sub) \<and>
           (\<forall>v. b_feedback b = Some v \<longrightarrow> feedback sub' = Some (map_option trim v)) \<and>
           s_id sub' = s_id sub \<and> assignmentId sub' = assignmentId sub \<and>
           studentId sub' = studentId sub \<and> answer sub' = answer sub \<and>
           submittedAt sub' = submittedAt sub \<and>
           (\<forall>j. j \<noteq> i \<longrightarrow> Submission_findById d' j = Submission_findById d j) \<and>
           assignments d' = assignments d \<and>
           rr_reviewed r = True \<and> rr_grade r = grade sub' \<and> rr_feedback r = feedback sub'"
proof -
  from reviewSubmission_success [OF assms] obtain asg new where
    h: "Assignment_findById d (assignmentId sub) = Some asg \<and> createdBy asg = userId u \<and>
      d' = Submission_save d now sub new \<and>
      new = (set_feedback (b_feedback b) (sub\<lparr>grade := (case b_grade b of None \<Rightarrow> grade sub | Some v \<Rightarrow> (case v of JNumber g \<Rightarrow> Some g | _ \<Rightarrow> grade sub))\<rparr>))\<lparr>reviewed := True\<rparr> \<and>
      (b_grade b = None \<or> (\<exists>g. b_grade b = Some (JNumber g) \<and> 0 \<le> g \<and> g \<le> 100)) \<and>
      r = \<lparr>submissionId = s_id sub, assignmentTitle = title asg, rr_grade = grade new,
               rr_feedback = feedback new, rr_reviewed = True\<rparr>"
    by (elim exE)
  from h have d': "d' = Submission_save d now sub new"
    by (elim conjE)
  from h have new: "new = (set_feedback (b_feedback b)
             (sub\<lparr>grade := (case b_grade b of None \<Rightarrow> grade sub
                 | Some v \<Rightarrow> (case v of JNumber g \<Rightarrow> Some g | _ \<Rightarrow> grade sub))\<rparr>))\<lparr>reviewed := True\<rparr>"
    by (elim conjE)
  from h have g: "b_grade b = None \<or> (\<exists>g. b_grade b = Some (JNumber g) \<and> 0 \<le> g \<and> g \<le> 100)"
    by (elim conjE)
  from h have r: "r = \<lparr>submissionId = s_id sub, assignmentTitle = title asg, rr_grade = grade new,
               rr_feedback = feedback new, rr_reviewed = True\<rparr>"
    by (elim conjE)
  let ?s = "stamp_submission now sub new"
  have i: "s_id sub = i" using assms(2) by (rule Submission_findById_id)
  have idn: "s_id new = s_id sub" unfolding new by (simp add: set_feedback_fields)
  have f1: "Submission_findById d' i = Some ?s"
    unfolding d' using assms(2) idn by (rule Submission_findById_save)
  have f2: "\<forall>j. j \<noteq> i \<longrightarrow> Submission_findById d' j = Submission_findById d j"
    unfolding d' using idn i by (simp add: Submission_findById_save_other)
  have a: "assignments d' = assignments d"
    unfolding d' by (simp add: Submission_save_def)
  have rv: "reviewed ?s = True"
    unfolding new by (simp add: stamp_submission_fields)
  have gr: "(b_grade b = None \<longrightarrow> grade ?s = grade sub) \<and>
      (\<forall>v. b_grade b = Some v \<longrightarrow> (\<exists>g. v = JNumber g \<and> grade ?s = Some g))"
    using g unfolding new by (auto simp: stamp_submission_fields set_feedback_fields)
  have fb: "(b_feedback b = None \<longrightarrow> feedback ?s = feedback sub) \<and>
      (\<forall>v. b_feedback b = Some v \<longrightarrow> feedback ?s = Some (map_option trim v))"
    unfolding new by (auto simp: stamp_submission_fields set_feedback_feedback)
  have fr: "s_id ?s = s_id sub \<and> assignmentId ?s = assignmentId sub \<and>
      studentId ?s = studentId sub \<and> answer ?s = answer sub \<and> submittedAt ?s = submittedAt sub"
    unfolding new by (simp add: stamp_submission_fields set_feedback_fields)
  have rr: "rr_reviewed r = True \<and> rr_grade r = grade ?s \<and> rr_feedback r = feedback ?s"
    unfolding r by (simp add: stamp_submission_fields)
  show ?thesis
    by (rule exI [of _ ?s]) (simp add: f1 f2 a rv gr fb fr rr)
qed

theorem reviewSubmission_marks_reviewed_witness:
  "reviewSubmission ex_db 300 ex_teacher 20 ex_review_none
     = (ex_db\<lparr>submissions := [ex_submission\<lparr>reviewed := True, s_updatedAt := 300\<rparr>]\<rparr>,
        Inr \<lparr>submissionId = 20, assignmentTitle = ''Quiz'', rr_grade = None,
             rr_feedback = None, rr_reviewed = True\<rparr>) \<and>
   Submission_findById (ex_db\<lparr>submissions := [ex_submission\<lparr>reviewed := True, s_updatedAt := 300\<rparr>]\<rparr>) 20
     = Some (ex_submission\<lparr>reviewed := True, s_updatedAt := 300\<rparr>)"
proof -
  have a: "Assignment_findById ex_db (assignmentId ex_submission) = Some ex_published"
    using ex_find_published by (simp add: ex_submission_def)
  have r: "reviewSubmission ex_db 300 ex_teacher 20 ex_review_none
     = (ex_db\<lparr>submissions := [ex_submission\<lparr>reviewed := True, s_updatedAt := 300\<rparr>]\<rparr>,
        Inr \<lparr>submissionId = 20, assignmentTitle = ''Quiz'', rr_grade = None,
             rr_feedback = None, rr_reviewed = True\<rparr>)"
    unfolding reviewSubmission_def ex_find_submission option.case a
    by (simp add: review_result_def Submission_save_def stamp_submission_def set_feedback_def
        ex_review_none_def ex_teacher_def ex_db_def ex_submission_def ex_published_def)
  from reviewSubmission_marks_reviewed [OF r ex_find_submission] r show ?thesis
    by (auto simp: Submission_findById_def ex_submission_def)
qed

text \<open>
  Claim C7. When the body supplies a grade that is not a number, or a number below 0 or
  above 100, \<open>reviewSubmission\<close> never succeeds and returns the store as it was, so the
  targeted submission keeps its grade, feedback and reviewed flag. When the submission
  exists and the caller owns its assignment, the failure is the validation error
  \<open>Grade must be a number between 0 and 100\<close>.
\<close>

theorem reviewSubmission_rejects_grade:
  assumes "b_grade b = Some v" and "\<forall>g. v = JNumber g \<longrightarrow> g < 0 \<or> 100 < g"
  shows "(\<exists>e. reviewSubmission d now u i b = (d, Inl e)) \<and>
         Submission_findById (fst (reviewSubmission d now u i b)) i = Submission_findById d i \<and>
         (\<forall>sub asg. Submission_findById d i = Some sub \<and>
              Assignment_findById d (assignmentId sub) = Some asg \<and> createdBy asg = userId u \<longrightarrow>
            reviewSubmission d now u i b
              = (d, Inl (ValidationError ''Grade must be a number between 0 and 100'')))"
proof -
  have 1: "\<exists>e. reviewSubmission d now u i b = (d, Inl e)"
    using assms
    by (cases v) (auto simp: reviewSubmission_def split: option.splits)
  then have 2: "Submission_findById (fst (reviewSubmission d now u i b)) i = Submission_findById d i"
    by auto
  have 3: "\<forall>sub asg. Submission_findById d i = Some sub \<and>
              Assignment_findById d (assignmentId sub) = Some asg \<and> createdBy asg = userId u \<longrightarrow>
            reviewSubmission d now u i b
              = (d, Inl (ValidationError ''Grade must be a number between 0 and 100''))"
    using assms
    by (cases v) (auto simp: reviewSubmission_def)
  from 1 2 3 show ?thesis by blast
qed

theorem reviewSubmission_rejects_grade_witness:
  "reviewSubmission ex_db 300 ex_teacher 20 ex_review_150
     = (ex_db, Inl (ValidationError ''Grade must be a number between 0 and 100'')) \<and>
   Submission_findById ex_db 20 = Some ex_submission"
proof -
  have g: "b_grade ex_review_150 = Some (JNumber 150)"
    by (simp add: ex_review_150_def)
  have v: "\<forall>g. JNumber 150 = JNumber g \<longrightarrow> g < 0 \<or> 100 < g"
    by simp
  have a: "Assignment_findById ex_db (assignmentId ex_submission) = Some ex_published"
    using ex_find_published by (simp add: ex_submission_def)
  have o: "createdBy ex_published = userId ex_teacher"
    by (simp add: ex_published_def ex_teacher_def)
  from reviewSubmission_rejects_grade [OF g v, where d = ex_db and now = 300 and u = ex_teacher and i = 20]
    ex_find_submission a o
  show ?thesis by simp
qed

section \<open>Outcomes of the writing requests\<close>

lemma createAssignment_failure: "createAssignment d now u b = (d', Inl e) \<Longrightarrow> d' = d"
  by (auto simp: createAssignment_def Let_def split: option.splits date_in.splits if_splits)

lemma createAssignment_success:
  "createAssignment d now u b = (d', Inr a) \<Longrightarrow>
   a_id a = nextId d \<and> status a = Draft \<and>
   d' = d\<lparr>assignments := assignments d @ [a], nextId := Suc (nextId d)\<rparr>"
  by (auto simp: createAssignment_def Let_def split: option.splits date_in.splits if_splits)

lemma updateAssignment_failure: "updateAssignment d now u i b = (d', Inl e) \<Longrightarrow> d' = d"
  by (auto simp: updateAssignment_def split: option.splits if_splits)

lemma deleteAssignment_failure: "deleteAssignment d u i = (d', Inl e) \<Longrightarrow> d' = d"
  by (auto simp: deleteAssignment_def split: option.splits if_splits)

lemma deleteAssignment_success:
  "deleteAssignment d u i = (d', Inr x) \<Longrightarrow>
   d' = d\<lparr>assignments := filter (\<lambda>x. a_id x \<noteq> i) (assignments d)\<rparr>"
  by (auto simp: deleteAssignment_def split: option.splits if_splits)

lemma updateAssignmentStatus_failure:
  "updateAssignmentStatus d now u i st = (d', Inl e) \<Longrightarrow> d' = d"
  by (auto simp: updateAssignmentStatus_def split: option.splits if_splits)

lemma updateAssignmentStatus_saved:
  "updateAssignmentStatus d now u i st = (d', Inr a') \<Longrightarrow>
   \<exists>a t. Assignment_findById d i = Some a \<and> d' = Assignment_save d now a (a\<lparr>status := t\<rparr>)"
  by (auto simp: updateAssignmentStatus_def split: option.splits if_splits)

lemma Submission_create_failure: "Submission_create d now a st ans = (d', Inl e) \<Longrightarrow> d' = d"
  by (auto simp: Submission_create_def split: if_splits)

lemma Submission_create_success:
  "Submission_create d now a st ans = (d', Inr s) \<Longrightarrow>
   Submission_findOne d a st = None \<and> trim ans \<noteq> [] \<and> s = new_submission d now a st ans \<and>
   d' = d\<lparr>submissions := submissions d @ [s], nextId := Suc (nextId d)\<rparr>"
  by (auto simp: Submission_create_def split: if_splits)

lemma createSubmission_failure: "createSubmission d now u b = (d', Inl e) \<Longrightarrow> d' = d"
  by (auto simp: createSubmission_def split: option.splits if_splits
      dest: Submission_create_failure)

lemma createSubmission_success:
  "createSubmission d now u b = (d', Inr s) \<Longrightarrow>
   \<exists>a ans asg. b_assignmentId b = Some a \<and> b_answer b = Some ans \<and> ans \<noteq> [] \<and>
     Assignment_findById d a = Some asg \<and> status asg = Published \<and> now \<le> dueDate asg \<and>
     Submission_findOne d a (userId u) = None \<and> trim ans \<noteq> [] \<and>
     s = new_submission d now a (userId u) ans \<and>
     d' = d\<lparr>submissions := submissions d @ [s], nextId := Suc (nextId d)\<rparr>"
  by (auto simp: createSubmission_def truthy_def split: option.splits if_splits
      dest!: Submission_create_success)

lemma reviewSubmission_failure: "reviewSubmission d now u i b = (d', Inl e) \<Longrightarrow> d' = d"
  by (auto simp: reviewSubmission_def review_result_def Let_def
      split: option.splits if_splits jsval.splits)

lemma reviewSubmission_saved:
  assumes "reviewSubmission d now u i b = (d', Inr r)"
  shows "\<exists>sub new. Submission_findById d i = Some sub \<and> s_id new = s_id sub \<and>
      assignmentId new = assignmentId sub \<and> studentId new = studentId sub \<and> reviewed new \<and>
      d' = Submission_save d now sub new"
proof -
  from assms obtain sub where f: "Submission_findById d i = Some sub"
    by (auto simp: reviewSubmission_def split: option.splits)
  let ?new = "(set_feedback (b_feedback b)
      (sub\<lparr>grade := (case b_grade b of None \<Rightarrow> grade sub
         | Some v \<Rightarrow> (case v of JNumber g \<Rightarrow> Some g | _ \<Rightarrow> grade sub))\<rparr>))\<lparr>reviewed := True\<rparr>"
  from reviewSubmission_success [OF assms f] have d': "d' = Submission_save d now sub ?new"
    by auto
  have "s_id ?new = s_id sub \<and> assignmentId ?new = assignmentId sub \<and>
      studentId ?new = studentId sub \<and> reviewed ?new"
    by (simp add: set_feedback_fields)
  with f d' show ?thesis by blast
qed

section \<open>The reviewed flag over time\<close>

lemma find_append_if:
  "find P (xs @ ys) = (case find P xs of None \<Rightarrow> find P ys | Some x \<Rightarrow> Some x)"
  by (induction xs) auto

lemma Assignment_save_submissions: "submissions (Assignment_save d now a new) = submissions d"
  by (simp add: Assignment_save_def)

lemma reviewed_in_cong: "submissions d' = submissions d \<Longrightarrow> reviewed_in d' i = reviewed_in d i"
  by (simp add: reviewed_in_def Submission_findById_def)

lemma reviewed_in_append:
  assumes "reviewed_in d i" and "submissions d' = submissions d @ xs"
  shows "reviewed_in d' i"
  using assms
  by (auto simp: reviewed_in_def Submission_findById_def find_append_if split: option.splits)

lemma reviewed_in_save:
  assumes "reviewed_in d j" and "Submission_findById d i = Some sub" and "s_id new = s_id sub"
    and "reviewed new"
  shows "reviewed_in (Submission_save d now sub new) j"
proof (cases "j = i")
  case True
  with assms(2,3,4) show ?thesis
    by (simp add: reviewed_in_def Submission_findById_save stamp_submission_fields)
next
  case False
  moreover have "s_id sub = i" using assms(2) by (rule Submission_findById_id)
  ultimately show ?thesis
    using assms(1,3) by (simp add: reviewed_in_def Submission_findById_save_other)
qed

lemma createAssignment_submissions:
  "submissions (fst (createAssignment d now u b)) = submissions d"
proof (cases "createAssignment d now u b")
  case (Pair d' res)
  then show ?thesis
    by (cases res) (auto dest: createAssignment_failure createAssignment_success)
qed

lemma updateAssignment_submissions:
  "submissions (fst (updateAssignment d now u i b)) = submissions d"
  by (simp add: updateAssignment_def Assignment_save_submissions split: option.splits)

lemma deleteAssignment_submissions:
  "submissions (fst (deleteAssignment d u i)) = submissions d"
  by (simp add: deleteAssignment_def split: option.splits)

lemma updateAssignmentStatus_submissions:
  "submissions (fst (updateAssignmentStatus d now u i st)) = submissions d"
  by (simp add: updateAssignmentStatus_def Assignment_save_submissions split: option.splits)

lemma createSubmission_reviewed_in:
  assumes "reviewed_in d i"
  shows "reviewed_in (fst (createSubmission d now u b)) i"
proof (cases "createSubmission d now u b")
  case (Pair d' res)
  have "reviewed_in d' i"
  proof (cases res)
    case (Inl e)
    with Pair have "d' = d" by (simp add: createSubmission_failure)
    with assms show ?thesis by simp
  next
    case (Inr s)
    with Pair have "submissions d' = submissions d @ [s]"
      by (auto dest: createSubmission_success)
    with assms show ?thesis by (rule reviewed_in_append)
  qed
  with Pair show ?thesis by simp
qed

lemma reviewSubmission_reviewed_in:
  assumes "reviewed_in d i"
  shows "reviewed_in (fst (reviewSubmission d now u j b)) i"
proof (cases "reviewSubmission d now u j b")
  case (Pair d' res)
  have "reviewed_in d' i"
  proof (cases res)
    case (Inl e)
    with Pair have "d' = d" by (simp add: reviewSubmission_failure)
    with assms show ?thesis by simp
  next
    case (Inr rep)
    with Pair have "reviewSubmission d now u j b = (d', Inr rep)" by simp
    from reviewSubmission_saved [OF this]
    obtain sub new where "Submission_findById d j = Some sub" "s_id new = s_id sub"
      "reviewed new" "d' = Submission_save d now sub new"
      by blast
    with assms show ?thesis by (simp add: reviewed_in_save)
  qed
  with Pair show ?thesis by simp
qed

lemma step_reviewed_in:
  assumes "reviewed_in d i"
  shows "reviewed_in (step d r) i"
proof (cases r)
  case (Pair now q)
  show ?thesis
  proof (cases q)
    case (CreateAssignment u b)
    with Pair assms show ?thesis
      by (simp add: reviewed_in_cong [OF createAssignment_submissions])
  next
    case (UpdateAssignment u j b)
    with Pair assms show ?thesis
      by (simp add: reviewed_in_cong [OF updateAssignment_submissions])
  next
    case (DeleteAssignment u j)
    with Pair assms show ?thesis
      by (simp add: reviewed_in_cong [OF deleteAssignment_submissions])
  next
    case (UpdateAssignmentStatus u j s)
    with Pair assms show ?thesis
      by (simp add: reviewed_in_cong [OF updateAssignmentStatus_submissions])
  next
    case (CreateSubmission u b)
    with Pair assms show ?thesis
      by (simp add: createSubmission_reviewed_in)
  next
    case (ReviewSubmission u j b)
    with Pair assms show ?thesis
      by (simp add: reviewSubmission_reviewed_in)
  qed
qed

lemma run_reviewed_in: "reviewed_in d i \<Longrightarrow> reviewed_in (run d rs) i"
  unfolding run_def by (induction rs arbitrary: d) (simp_all add: step_reviewed_in)

text \<open>
  Claim C10. Once the submission with id \<open>i\<close> is stored with \<open>reviewed = true\<close>, it is
  still stored with \<open>reviewed = true\<close> after any sequence of the writing requests
  (assignment create, update, delete and status change, submission create, review),
  whether they succeed or fail. A submission that \<open>createSubmission\<close> creates starts
  with \<open>reviewed = false\<close>.
\<close>

theorem reviewed_monotone:
  "(reviewed_in d i \<longrightarrow> reviewed_in (run d rs) i) \<and>
   (\<forall>d' s. createSubmission d now u b = (d', Inr s) \<longrightarrow>
      reviewed s = False \<and> s \<in> set (submissions d'))"
proof (intro conjI impI allI)
  assume "reviewed_in d i"
  then show "reviewed_in (run d rs) i" by (rule run_reviewed_in)
next
  fix d' s
  assume "createSubmission d now u b = (d', Inr s)"
  from createSubmission_success [OF this]
  show "reviewed s = False" and "s \<in> set (submissions d')"
    by (auto simp: new_submission_def)
qed

theorem reviewed_monotone_witness:
  "reviewed_in ex_reviewed_db 20 \<and>
   reviewed_in (run ex_reviewed_db
      [(300, ReviewSubmission ex_teacher 20 ex_review_none),
       (310, CreateSubmission ex_student ex_submit),
       (320, UpdateAssignmentStatus ex_teacher 11 (Some ''Completed''))]) 20"
proof -
  have r: "reviewed_in ex_reviewed_db 20"
    by (simp add: reviewed_in_def Submission_findById_def ex_reviewed_db_def ex_db_def
        ex_submission_def)
  with reviewed_monotone [where d = ex_reviewed_db and i = 20] show ?thesis
    by blast
qed

section \<open>One submission per assignment and student\<close>

lemma wf_iff:
  "wf d \<longleftrightarrow> distinct (map a_id (assignments d)) \<and> distinct (map s_id (submissions d)) \<and>
     (\<forall>x \<in> set (map a_id (assignments d)). x < nextId d) \<and>
     (\<forall>x \<in> set (map s_id (submissions d)). x < nextId d)"
  by (auto simp: wf_def list_all_iff)

lemma wf_cong:
  assumes "map a_id (assignments d') = map a_id (assignments d)"
    and "map s_id (submissions d') = map s_id (submissions d)" and "nextId d' = nextId d"
  shows "wf d' = wf d"
  unfolding wf_iff using assms by simp

lemma Assignment_save_ids:
  assumes "a_id new = a_id a"
  shows "map a_id (assignments (Assignment_save d now a new)) = map a_id (assignments d)"
proof -
  have "a_id (stamp_assignment now a new) = a_id a"
    using assms by (simp add: stamp_assignment_fields)
  then show ?thesis
    by (simp add: Assignment_save_def comp_def cong: map_cong if_cong)
qed

lemma Assignment_save_wf:
  assumes "a_id new = a_id a"
  shows "wf (Assignment_save d now a new) = wf d"
proof (rule wf_cong)
  show "map a_id (assignments (Assignment_save d now a new)) = map a_id (assignments d)"
    using assms by (rule Assignment_save_ids)
qed (simp_all add: Assignment_save_def)

lemma Submission_save_ids:
  assumes "s_id new = s_id s"
  shows "map s_id (submissions (Submission_save d now s new)) = map s_id (submissions d)"
proof -
  have "s_id (stamp_submission now s new) = s_id s"
    using assms by (simp add: stamp_submission_fields)
  then show ?thesis
    by (simp add: Submission_save_def comp_def cong: map_cong if_cong)
qed

lemma Submission_save_wf:
  assumes "s_id new = s_id s"
  shows "wf (Submission_save d now s new) = wf d"
proof (rule wf_cong)
  show "map s_id (submissions (Submission_save d now s new)) = map s_id (submissions d)"
    using assms by (rule Submission_save_ids)
qed (simp_all add: Submission_save_def)

lemma wf_add_assignment:
  assumes "wf d" and "a_id a = nextId d"
  shows "wf (d\<lparr>assignments := assignments d @ [a], nextId := Suc (nextId d)\<rparr>)"
  using assms unfolding wf_iff by (auto simp: less_Suc_eq)

lemma wf_add_submission:
  assumes "wf d" and "s_id s = nextId d"
  shows "wf (d\<lparr>submissions := submissions d @ [s], nextId := Suc (nextId d)\<rparr>)"
  using assms unfolding wf_iff by (auto simp: less_Suc_eq)

lemma wf_delete:
  assumes "wf d"
  shows "wf (d\<lparr>assignments := filter P (assignments d)\<rparr>)"
  using assms unfolding wf_iff by (auto simp: distinct_map_filter)

lemma createAssignment_wf: "wf d \<Longrightarrow> wf (fst (createAssignment d now u b))"
proof (cases "createAssignment d now u b")
  case (Pair d' res)
  assume w: "wf d"
  have "wf d'"
  proof (cases res)
    case (Inl e)
    with Pair w show ?thesis by (auto dest: createAssignment_failure)
  next
    case (Inr a)
    with Pair have "a_id a = nextId d"
      and "d' = d\<lparr>assignments := assignments d @ [a], nextId := Suc (nextId d)\<rparr>"
      by (auto dest: createAssignment_success)
    with w show ?thesis by (simp add: wf_add_assignment)
  qed
  with Pair show ?thesis by simp
qed

lemma updateAssignment_wf: "wf d \<Longrightarrow> wf (fst (updateAssignment d now u i b))"
  by (simp add: updateAssignment_def Assignment_save_wf apply_update_frame split: option.splits)

lemma deleteAssignment_wf: "wf d \<Longrightarrow> wf (fst (deleteAssignment d u i))"
  by (simp add: deleteAssignment_def wf_delete split: option.splits)

lemma updateAssignmentStatus_wf: "wf d \<Longrightarrow> wf (fst (updateAssignmentStatus d now u i st))"
  by (simp add: updateAssignmentStatus_def Assignment_save_wf split: option.splits)

lemma createSubmission_wf: "wf d \<Longrightarrow> wf (fst (createSubmission d now u b))"
proof (cases "createSubmission d now u b")
  case (Pair d' res)
  assume w: "wf d"
  have "wf d'"
  proof (cases res)
    case (Inl e)
    with Pair w show ?thesis by (auto dest: createSubmission_failure)
  next
    case (Inr s)
    with Pair have "createSubmission d now u b = (d', Inr s)" by simp
    from createSubmission_success [OF this]
    have "s_id s = nextId d"
      and "d' = d\<lparr>submissions := submissions d @ [s], nextId := Suc (nextId d)\<rparr>"
      by (auto simp: new_submission_def)
    with w show ?thesis by (simp add: wf_add_submission)
  qed
  with Pair show ?thesis by simp
qed

lemma reviewSubmission_wf: "wf d \<Longrightarrow> wf (fst (reviewSubmission d now u i b))"
proof (cases "reviewSubmission d now u i b")
  case (Pair d' res)
  assume w: "wf d"
  have "wf d'"
  proof (cases res)
    case (Inl e)
    with Pair w show ?thesis by (auto dest: reviewSubmission_failure)
  next
    case (Inr r)
    with Pair have "reviewSubmission d now u i b = (d', Inr r)" by simp
    from reviewSubmission_saved [OF this] w show ?thesis
      by (auto simp: Submission_save_wf)
  qed
  with Pair show ?thesis by simp
qed

lemma step_wf: "wf d \<Longrightarrow> wf (step d r)"
proof (cases r)
  case (Pair now q)
  assume "wf d"
  with Pair show ?thesis
    by (cases q)
      (simp_all add: createAssignment_wf updateAssignment_wf deleteAssignment_wf
        updateAssignmentStatus_wf createSubmission_wf reviewSubmission_wf)
qed

lemma unique_pairs_cong:
  "submissions d' = submissions d \<Longrightarrow> unique_pairs d' = unique_pairs d"
  by (simp add: unique_pairs_def)

lemma unique_pairs_add:
  assumes "unique_pairs d" and "Submission_findOne d (assignmentId s) (studentId s) = None"
  shows "unique_pairs (d\<lparr>submissions := submissions d @ [s], nextId := n\<rparr>)"
  using assms by (auto simp: unique_pairs_def Submission_findOne_def find_None_iff)

lemma map_replace_same:
  assumes "distinct (map key xs)" and "a \<in> set xs" and "f b = f a"
  shows "map f (map (\<lambda>x. if key x = key a then b else x) xs) = map f xs"
proof -
  have "\<And>x. x \<in> set xs \<Longrightarrow> key x = key a \<Longrightarrow> x = a"
    using assms(1,2) by (auto simp: distinct_map inj_on_def)
  then show ?thesis
    using assms(3) by (auto simp: comp_def intro!: map_cong)
qed

lemma unique_pairs_save:
  assumes "wf d" and "Submission_findById d i = Some sub" and "assignmentId new = assignmentId sub"
    and "studentId new = studentId sub"
  shows "unique_pairs (Submission_save d now sub new) = unique_pairs d"
proof -
  let ?p = "\<lambda>s. (assignmentId s, studentId s)"
  have 1: "distinct (map s_id (submissions d))"
    using assms(1) by (simp add: wf_def)
  have 2: "sub \<in> set (submissions d)"
    using assms(2) by (rule Submission_findById_mem)
  have 3: "?p (stamp_submission now sub new) = ?p sub"
    using assms(3,4) by (simp add: stamp_submission_fields)
  have "map ?p (map (\<lambda>x. if s_id x = s_id sub then stamp_submission now sub new else x)
      (submissions d)) = map ?p (submissions d)"
    using 1 2 3 by (rule map_replace_same)
  then have "map ?p (submissions (Submission_save d now sub new)) = map ?p (submissions d)"
    by (simp add: Submission_save_def)
  then show ?thesis
    by (simp only: unique_pairs_def)
qed

lemma createSubmission_unique: "unique_pairs d \<Longrightarrow> unique_pairs (fst (createSubmission d now u b))"
proof (cases "createSubmission d now u b")
  case (Pair d' res)
  assume w: "unique_pairs d"
  have "unique_pairs d'"
  proof (cases res)
    case (Inl e)
    with Pair w show ?thesis by (auto dest: createSubmission_failure)
  next
    case (Inr s)
    with Pair have "createSubmission d now u b = (d', Inr s)" by simp
    from createSubmission_success [OF this]
    have "Submission_findOne d (assignmentId s) (studentId s) = None"
      and "d' = d\<lparr>submissions := submissions d @ [s], nextId := Suc (nextId d)\<rparr>"
      by (auto simp: new_submission_def)
    with w show ?thesis by (simp add: unique_pairs_add)
  qed
  with Pair show ?thesis by simp
qed

lemma reviewSubmission_unique:
  "wf d \<Longrightarrow> unique_pairs d \<Longrightarrow> unique_pairs (fst (reviewSubmission d now u i b))"
proof (cases "reviewSubmission d now u i b")
  case (Pair d' res)
  assume w: "wf d" and q: "unique_pairs d"
  have "unique_pairs d'"
  proof (cases res)
    case (Inl e)
    with Pair q show ?thesis by (auto dest: reviewSubmission_failure)
  next
    case (Inr r)
    with Pair have "reviewSubmission d now u i b = (d', Inr r)" by simp
    from reviewSubmission_saved [OF this] w q show ?thesis
      by (auto simp: unique_pairs_save)
  qed
  with Pair show ?thesis by simp
qed

lemma step_unique: "wf d \<Longrightarrow> unique_pairs d \<Longrightarrow> unique_pairs (step d r)"
proof (cases r)
  case (Pair now q)
  assume "wf d" and "unique_pairs d"
  with Pair show ?thesis
    by (cases q)
      (simp_all add: unique_pairs_cong [OF createAssignment_submissions]
        unique_pairs_cong [OF updateAssignment_submissions]
        unique_pairs_cong [OF deleteAssignment_submissions]
        unique_pairs_cong [OF updateAssignmentStatus_submissions]
        createSubmission_unique reviewSubmission_unique)
qed

lemma run_invariants: "wf d \<Longrightarrow> unique_pairs d \<Longrightarrow> wf (run d rs) \<and> unique_pairs (run d rs)"
  unfolding run_def by (induction rs arbitrary: d) (simp_all add: step_wf step_unique)

lemma empty_db_invariants: "wf empty_db \<and> unique_pairs empty_db"
  by (simp add: wf_def unique_pairs_def empty_db_def)

lemma distinct_map_filter_le1:
  "distinct (map f xs) \<Longrightarrow> length (filter (\<lambda>x. f x = k) xs) \<le> 1"
proof (induction xs)
  case Nil
  then show ?case by simp
next
  case (Cons x xs)
  show ?case
  proof (cases "f x = k")
    case True
    from Cons.prems have "f x \<notin> f ` set xs"
      by simp
    with True have "\<forall>y \<in> set xs. f y \<noteq> k"
      by (metis image_eqI)
    then have "filter (\<lambda>x. f x = k) xs = []"
      by (simp add: filter_empty_conv)
    with True show ?thesis by simp
  next
    case False
    with Cons show ?thesis by simp
  qed
qed

lemma unique_pairs_count:
  assumes "unique_pairs d"
  shows "length (filter (\<lambda>s. assignmentId s = a \<and> studentId s = st) (submissions d)) \<le> 1"
  using distinct_map_filter_le1 [OF assms [unfolded unique_pairs_def], of "(a, st)"]
  by simp

text \<open>
  Claim C2, as the code has it. Every store reached from the empty store by the writing
  requests holds at most one submission for each pair of assignment and student, and
  every request preserves this (together with the uniqueness of ids). When a submission
  for the caller and the requested assignment exists, \<open>createSubmission\<close> fails and
  creates nothing. The failure is the conflict \<open>You have already submitted this
  assignment\<close> when the request reaches the duplicate check, that is when the body is
  complete and the assignment is found, Published and not past due; the checks of the
  status and of the due date come first. The unique index itself, in
  \<open>Submission_create\<close>, refuses a second document for a pair.
\<close>

theorem one_submission_per_pair:
  "(wf d \<and> unique_pairs d \<longrightarrow> wf (run d rs) \<and> unique_pairs (run d rs)) \<and>
   length (filter (\<lambda>s. assignmentId s = a \<and> studentId s = st) (submissions (run empty_db rs))) \<le> 1 \<and>
   (Submission_findOne d a (userId u) \<noteq> None \<and> b_assignmentId b = Some a \<longrightarrow>
      (\<exists>e. createSubmission d now u b = (d, Inl e))) \<and>
   (Submission_findOne d a (userId u) \<noteq> None \<and> b_assignmentId b = Some a \<and>
    truthy (b_answer b) \<and>
    (\<exists>asg. Assignment_findById d a = Some asg \<and> status asg = Published \<and> now \<le> dueDate asg) \<longrightarrow>
      createSubmission d now u b
        = (d, Inl (Conflict ''You have already submitted this assignment''))) \<and>
   (Submission_findOne d a st \<noteq> None \<longrightarrow>
      (\<exists>e. Submission_create d now a st ans = (d, Inl e)))"
proof (intro conjI impI)
  assume "wf d \<and> unique_pairs d"
  then show "wf (run d rs)" and "unique_pairs (run d rs)"
    by (simp_all add: run_invariants)
next
  have "unique_pairs (run empty_db rs)"
    using empty_db_invariants by (simp add: run_invariants)
  then show "length (filter (\<lambda>s. assignmentId s = a \<and> studentId s = st)
      (submissions (run empty_db rs))) \<le> 1"
    by (rule unique_pairs_count)
next
  assume h: "Submission_findOne d a (userId u) \<noteq> None \<and> b_assignmentId b = Some a"
  obtain d' res where r: "createSubmission d now u b = (d', res)"
    by (cases "createSubmission d now u b")
  show "\<exists>e. createSubmission d now u b = (d, Inl e)"
  proof (cases res)
    case (Inl e)
    with r show ?thesis by (auto dest: createSubmission_failure)
  next
    case (Inr s)
    with r have "createSubmission d now u b = (d', Inr s)" by simp
    from createSubmission_success [OF this] h show ?thesis by auto
  qed
next
  assume "Submission_findOne d a (userId u) \<noteq> None \<and> b_assignmentId b = Some a \<and>
    truthy (b_answer b) \<and>
    (\<exists>asg. Assignment_findById d a = Some asg \<and> status asg = Published \<and> now \<le> dueDate asg)"
  then show "createSubmission d now u b
      = (d, Inl (Conflict ''You have already submitted this assignment''))"
    by (auto simp: createSubmission_def)
next
  assume "Submission_findOne d a st \<noteq> None"
  then show "\<exists>e. Submission_create d now a st ans = (d, Inl e)"
    by (simp add: Submission_create_def)
qed

theorem one_submission_per_pair_witness:
  "createSubmission ex_db 300 ex_student ex_submit
     = (ex_db, Inl (Conflict ''You have already submitted this assignment'')) \<and>
   Submission_findOne ex_db 11 (userId ex_student) = Some ex_submission \<and>
   wf ex_db \<and> unique_pairs ex_db \<and>
   unique_pairs (run ex_db [(300, CreateSubmission ex_student ex_submit)])"
proof -
  have f: "Submission_findOne ex_db 11 (userId ex_student) = Some ex_submission"
    by (simp add: Submission_findOne_def ex_db_def ex_submission_def ex_student_def)
  have b: "b_assignmentId ex_submit = Some 11" and t: "truthy (b_answer ex_submit)"
    by (simp_all add: ex_submit_def truthy_def)
  have a: "\<exists>asg. Assignment_findById ex_db 11 = Some asg \<and> status asg = Published \<and>
      300 \<le> dueDate asg"
    using ex_find_published by (simp add: ex_published_def)
  have w: "wf ex_db \<and> unique_pairs ex_db"
    by (simp add: wf_def unique_pairs_def ex_db_def ex_draft_def ex_published_def
        ex_submission_def)
  from one_submission_per_pair [where d = ex_db and a = 11 and u = ex_student and
      b = ex_submit and now = 300 and rs = "[(300, CreateSubmission ex_student ex_submit)]"]
    f b t a w
  show ?thesis by simp
qed

text \<open>
  A second submission after the due date: the due-date check answers before the
  duplicate check is reached.
\<close>

theorem createSubmission_duplicate_past_due:
  "Submission_findOne ex_db 11 (userId ex_student) = Some ex_submission \<and>
   b_assignmentId ex_submit = Some 11 \<and>
   createSubmission ex_db 600 ex_student ex_submit
     = (ex_db, Inl (InvalidState
          ''Assignment due date has passed. Submissions are no longer accepted.'')) \<and>
   createSubmission ex_db 600 ex_student ex_submit
     \<noteq> (ex_db, Inl (Conflict ''You have already submitted this assignment''))"
proof -
  have f: "Submission_findOne ex_db 11 (userId ex_student) = Some ex_submission"
    by (simp add: Submission_findOne_def ex_db_def ex_submission_def ex_student_def)
  have r: "createSubmission ex_db 600 ex_student ex_submit
     = (ex_db, Inl (InvalidState
          ''Assignment due date has passed. Submissions are no longer accepted.''))"
    unfolding createSubmission_def
    by (simp add: ex_submit_def truthy_def ex_find_published) (simp add: ex_published_def)
  from f r show ?thesis
    by (simp add: ex_submit_def)
qed

section \<open>Submission gating\<close>

lemma ex_findOne_other: "Submission_findOne ex_db 11 (userId ex_other_student) = None"
  by (simp add: Submission_findOne_def ex_db_def ex_submission_def ex_other_student_def)

lemma trim_again: "trim (units ''again'') = units ''again''"
  by (simp add: trim_def is_space_def units_def)

lemma trim_blank: "trim [0x0020] = []"
  by (simp add: trim_def is_space_def)

lemma trim_unicode_blank: "trim [0x00A0, 0x3000, 0xFEFF, 0x2028] = []"
  by (simp add: trim_def is_space_def)

lemma trim_inner_space: "trim (0x00A0 # units '' a b '' @ [0x2003]) = units ''a b''"
  by (simp add: trim_def is_space_def units_def)

text \<open>
  Claim C3, as the code has it. Let the body carry an assignment id and a non-empty
  answer, and let the assignment exist. \<open>createSubmission\<close> fails as an invalid state
  when the assignment is not Published (Draft or Completed), and when it is Published
  and the current time is after the due date. When it is Published, not past due, and
  the caller has no submission for it, the call succeeds if the answer is not blank
  (non-empty once trimmed of ECMAScript white space): the submission is stored with the
  trimmed answer,
  \<open>reviewed = false\<close> and no grade or feedback. A blank answer is refused by the
  schema's required check and nothing is stored.
\<close>

theorem createSubmission_gating:
  assumes "b_assignmentId b = Some a" and "b_answer b = Some ans" and "ans \<noteq> []"
    and "Assignment_findById d a = Some asg"
  shows "(status asg \<noteq> Published \<longrightarrow>
            createSubmission d now u b
              = (d, Inl (InvalidState ''Assignment is not available for submission''))) \<and>
         (status asg = Published \<and> dueDate asg < now \<longrightarrow>
            createSubmission d now u b
              = (d, Inl (InvalidState
                  ''Assignment due date has passed. Submissions are no longer accepted.''))) \<and>
         (status asg = Published \<and> now \<le> dueDate asg \<and>
          Submission_findOne d a (userId u) = None \<and> trim ans \<noteq> [] \<longrightarrow>
            (\<exists>s. createSubmission d now u b
                    = (d\<lparr>submissions := submissions d @ [s], nextId := Suc (nextId d)\<rparr>, Inr s) \<and>
                  assignmentId s = a \<and> studentId s = userId u \<and> answer s = trim ans \<and>
                  submittedAt s = now \<and> reviewed s = False \<and> grade s = None \<and>
                  feedback s = None)) \<and>
         (status asg = Published \<and> now \<le> dueDate asg \<and>
          Submission_findOne d a (userId u) = None \<and> trim ans = [] \<longrightarrow>
            createSubmission d now u b = (d, Inl (Thrown (SchemaValidationError ''answer''))))"
proof (intro conjI impI)
  assume "status asg \<noteq> Published"
  with assms show "createSubmission d now u b
      = (d, Inl (InvalidState ''Assignment is not available for submission''))"
    by (simp add: createSubmission_def truthy_def)
next
  assume "status asg = Published \<and> dueDate asg < now"
  with assms show "createSubmission d now u b
      = (d, Inl (InvalidState
          ''Assignment due date has passed. Submissions are no longer accepted.''))"
    by (simp add: createSubmission_def truthy_def)
next
  assume h: "status asg = Published \<and> now \<le> dueDate asg \<and>
    Submission_findOne d a (userId u) = None \<and> trim ans \<noteq> []"
  let ?s = "new_submission d now a (userId u) ans"
  have "createSubmission d now u b
      = (d\<lparr>submissions := submissions d @ [?s], nextId := Suc (nextId d)\<rparr>, Inr ?s)"
    using assms h by (simp add: createSubmission_def truthy_def Submission_create_def)
  moreover have "assignmentId ?s = a \<and> studentId ?s = userId u \<and> answer ?s = trim ans \<and>
      submittedAt ?s = now \<and> reviewed ?s = False \<and> grade ?s = None \<and> feedback ?s = None"
    by (simp add: new_submission_def)
  ultimately show "\<exists>s. createSubmission d now u b
        = (d\<lparr>submissions := submissions d @ [s], nextId := Suc (nextId d)\<rparr>, Inr s) \<and>
      assignmentId s = a \<and> studentId s = userId u \<and> answer s = trim ans \<and>
      submittedAt s = now \<and> reviewed s = False \<and> grade s = None \<and> feedback s = None"
    by (intro exI [of _ ?s]) simp
next
  assume "status asg = Published \<and> now \<le> dueDate asg \<and>
    Submission_findOne d a (userId u) = None \<and> trim ans = []"
  with assms show "createSubmission d now u b
      = (d, Inl (Thrown (SchemaValidationError ''answer'')))"
    by (simp add: createSubmission_def truthy_def Submission_create_def)
qed

theorem createSubmission_gating_witness:
  "createSubmission ex_db 300 ex_other_student ex_submit
     = (ex_db\<lparr>submissions := submissions ex_db @
            [\<lparr>s_id = 21, assignmentId = 11, studentId = 3, answer = units ''again'',
              submittedAt = 300, reviewed = False, grade = None, feedback = None,
              s_createdAt = 300, s_updatedAt = 300\<rparr>], nextId := 22\<rparr>,
        Inr \<lparr>s_id = 21, assignmentId = 11, studentId = 3, answer = units ''again'',
             submittedAt = 300, reviewed = False, grade = None, feedback = None,
             s_createdAt = 300, s_updatedAt = 300\<rparr>)"
proof -
  have b: "b_assignmentId ex_submit = Some 11" "b_answer ex_submit = Some (units ''again'')"
    by (simp_all add: ex_submit_def)
  have n: "units ''again'' \<noteq> []" by simp
  have p: "status ex_published = Published \<and> 300 \<le> dueDate ex_published \<and>
      Submission_findOne ex_db 11 (userId ex_other_student) = None \<and> trim (units ''again'') \<noteq> []"
    by (simp add: ex_published_def ex_findOne_other trim_again)
  from createSubmission_gating [OF b n ex_find_published, where u = ex_other_student and now = 300] p
  obtain s where s: "createSubmission ex_db 300 ex_other_student ex_submit
      = (ex_db\<lparr>submissions := submissions ex_db @ [s], nextId := Suc (nextId ex_db)\<rparr>, Inr s)"
    by blast
  have "createSubmission ex_db 300 ex_other_student ex_submit
      = (ex_db\<lparr>submissions := submissions ex_db @
            [new_submission ex_db 300 11 3 (units ''again'')], nextId := Suc (nextId ex_db)\<rparr>,
         Inr (new_submission ex_db 300 11 3 (units ''again'')))"
    using createSubmission_success [OF s] s by (auto simp: ex_other_student_def ex_submit_def)
  then show ?thesis
    by (simp add: new_submission_def trim_again) (simp add: ex_db_def)
qed

theorem createSubmission_blank_answer:
  "b_assignmentId ex_blank = Some 11 \<and> b_answer ex_blank = Some [0x0020] \<and>
   Assignment_findById ex_db 11 = Some ex_published \<and> status ex_published = Published \<and>
   300 < dueDate ex_published \<and>
   Submission_findOne ex_db 11 (userId ex_other_student) = None \<and>
   createSubmission ex_db 300 ex_other_student ex_blank
     = (ex_db, Inl (Thrown (SchemaValidationError ''answer'')))"
proof -
  have "createSubmission ex_db 300 ex_other_student ex_blank
     = (ex_db, Inl (Thrown (SchemaValidationError ''answer'')))"
    unfolding createSubmission_def
    by (simp add: ex_blank_def truthy_def ex_find_published ex_findOne_other
        Submission_create_def trim_blank) (simp add: ex_published_def)
  then show ?thesis
    by (simp add: ex_blank_def ex_find_published ex_findOne_other) (simp add: ex_published_def)
qed

text \<open>An answer made of NO-BREAK SPACE only is blank as well.\<close>

lemma createSubmission_nbsp_answer:
  "createSubmission ex_db 300 ex_other_student
      \<lparr>b_assignmentId = Some 11, b_answer = Some [0x00A0]\<rparr>
     = (ex_db, Inl (Thrown (SchemaValidationError ''answer'')))"
proof -
  have t: "trim [0x00A0] = []"
    by (simp add: trim_def is_space_def)
  show ?thesis
    unfolding createSubmission_def
    by (simp add: truthy_def ex_find_published ex_findOne_other Submission_create_def t)
      (simp add: ex_published_def)
qed

section \<open>Listing assignments\<close>

lemma status_name_inj: "status_name s = status_name t \<longleftrightarrow> s = t"
  by (cases s; cases t) simp_all

lemma status_name_Published: "status_name s = ''Published'' \<longleftrightarrow> s = Published"
  by (cases s) simp_all

lemma run_query_subset:
  "a \<in> set (run_query d f k n) \<Longrightarrow> a \<in> set (assignments d) \<and> matches f a"
proof -
  assume "a \<in> set (run_query d f k n)"
  then have "a \<in> set (drop (nat k) (sort_key (\<lambda>a. - createdAt a) (filter (matches f) (assignments d))))"
    unfolding run_query_def by (rule in_set_takeD)
  then have "a \<in> set (sort_key (\<lambda>a. - createdAt a) (filter (matches f) (assignments d)))"
    by (rule in_set_dropD)
  then show ?thesis by simp
qed

lemma getAssignments_data:
  assumes "getAssignments d u q = Inr r"
  shows "l_data r = run_query d (role_filter u (q_status q))
           ((or_default (q_page q) 1 - 1) * or_default (q_limit q) 10) (or_default (q_limit q) 10)"
  using assms by (auto simp: getAssignments_def Let_def split: if_splits)

lemma getAssignments_student_status:
  "role u = ''student'' \<Longrightarrow> getAssignments d u (q\<lparr>q_status := s\<rparr>) = getAssignments d u q"
  by (simp add: getAssignments_def role_filter_def)

lemma getAssignments_teacher_invalid:
  assumes "role u = ''teacher''" and "q_status q \<notin> Some ` set status_names"
  shows "getAssignments d u (q\<lparr>q_status := None\<rparr>) = getAssignments d u q"
proof -
  have "role_filter u (q_status q) = role_filter u None"
    using assms by (cases "q_status q") (auto simp: role_filter_def truthy_def)
  then show ?thesis
    by (simp add: getAssignments_def)
qed

lemma getAssignments_succeeds:
  "(\<exists>r. getAssignments d u q = Inr r)
     \<longleftrightarrow> 0 \<le> (or_default (q_page q) 1 - 1) * or_default (q_limit q) 10"
  by (simp add: getAssignments_def Let_def)

text \<open>
  Claim C4. \<open>getAssignments\<close> fails only when the requested page lies before the first
  one; no status filter makes it fail. For a student the answer is the same whatever
  status filter the query carries, and every listed assignment is a stored one with
  status Published. For a teacher a status filter that is not one of the three names
  gives the answer of the query without the filter, so it is ignored; every listed
  assignment is a stored one created by the caller, and has status \<open>t\<close> when the
  query's status filter names the status \<open>t\<close>.
\<close>

theorem getAssignments_role_filter:
  "((\<exists>r. getAssignments d u q = Inr r)
      \<longleftrightarrow> 0 \<le> (or_default (q_page q) 1 - 1) * or_default (q_limit q) 10) \<and>
   (role u = ''student'' \<longrightarrow>
      (\<forall>s. getAssignments d u (q\<lparr>q_status := s\<rparr>) = getAssignments d u q)) \<and>
   (role u = ''teacher'' \<and> q_status q \<notin> Some ` set status_names \<longrightarrow>
      getAssignments d u (q\<lparr>q_status := None\<rparr>) = getAssignments d u q) \<and>
   (\<forall>r. getAssignments d u q = Inr r \<longrightarrow>
      (role u = ''student'' \<longrightarrow>
         (\<forall>a \<in> set (l_data r). a \<in> set (assignments d) \<and> status a = Published)) \<and>
      (role u = ''teacher'' \<longrightarrow>
         (\<forall>a \<in> set (l_data r). a \<in> set (assignments d) \<and> createdBy a = userId u \<and>
            (\<forall>t. q_status q = Some (status_name t) \<longrightarrow> status a = t))))"
proof (intro conjI impI allI ballI)
  show "(\<exists>r. getAssignments d u q = Inr r)
      \<longleftrightarrow> 0 \<le> (or_default (q_page q) 1 - 1) * or_default (q_limit q) 10"
    by (rule getAssignments_succeeds)
next
  fix s
  assume "role u = ''student''"
  then show "getAssignments d u (q\<lparr>q_status := s\<rparr>) = getAssignments d u q"
    by (rule getAssignments_student_status)
next
  assume "role u = ''teacher'' \<and> q_status q \<notin> Some ` set status_names"
  then show "getAssignments d u (q\<lparr>q_status := None\<rparr>) = getAssignments d u q"
    by (simp add: getAssignments_teacher_invalid)
next
  fix r a
  assume ok: "getAssignments d u q = Inr r" and st: "role u = ''student''"
    and a: "a \<in> set (l_data r)"
  from a have m: "a \<in> set (assignments d) \<and> matches (role_filter u (q_status q)) a"
    unfolding getAssignments_data [OF ok] by (rule run_query_subset)
  then show "a \<in> set (assignments d)" by simp
  from m st show "status a = Published"
    by (simp add: role_filter_def matches_def status_name_Published)
next
  fix r a
  assume ok: "getAssignments d u q = Inr r" and te: "role u = ''teacher''"
    and a: "a \<in> set (l_data r)"
  from a have m: "a \<in> set (assignments d) \<and> matches (role_filter u (q_status q)) a"
    unfolding getAssignments_data [OF ok] by (rule run_query_subset)
  then show "a \<in> set (assignments d)" by simp
  from m te show "createdBy a = userId u"
    by (simp add: role_filter_def matches_def)
  fix t
  assume "q_status q = Some (status_name t)"
  with m te show "status a = t"
    by (simp add: role_filter_def matches_def truthy_def status_name_nonempty
        status_name_in_names status_name_inj)
qed

theorem getAssignments_role_filter_witness:
  "getAssignments ex_db ex_teacher ex_query_invalid
     = Inr \<lparr>l_count = 2,
            l_pagination = \<lparr>currentPage = 1, totalPages = 1, p_totalAssignments = 2,
                             hasNext = False, hasPrev = False\<rparr>,
            l_data = [ex_published, ex_draft]\<rparr> \<and>
   getAssignments ex_db ex_teacher (ex_query_invalid\<lparr>q_status := None\<rparr>)
     = getAssignments ex_db ex_teacher ex_query_invalid \<and>
   getAssignments ex_db ex_student ex_query
     = Inr \<lparr>l_count = 1,
            l_pagination = \<lparr>currentPage = 1, totalPages = 1, p_totalAssignments = 1,
                             hasNext = False, hasPrev = False\<rparr>,
            l_data = [ex_published]\<rparr> \<and>
   getAssignments ex_db ex_student (ex_query\<lparr>q_status := None\<rparr>)
     = getAssignments ex_db ex_student ex_query"
proof -
  have c: "\<lceil>(1::rat) / 10\<rceil> = 1" "\<lceil>(1::rat) / 5\<rceil> = 1"
    by (simp_all add: ceiling_eq_iff)
  have t: "getAssignments ex_db ex_teacher ex_query_invalid
     = Inr \<lparr>l_count = 2,
            l_pagination = \<lparr>currentPage = 1, totalPages = 1, p_totalAssignments = 2,
                             hasNext = False, hasPrev = False\<rparr>,
            l_data = [ex_published, ex_draft]\<rparr>"
    by (simp add: getAssignments_def run_query_def role_filter_def matches_def or_default_def
        truthy_def status_names_def ex_query_invalid_def ex_teacher_def ex_db_def
        ex_draft_def ex_published_def c)
  have s: "getAssignments ex_db ex_student ex_query
     = Inr \<lparr>l_count = 1,
            l_pagination = \<lparr>currentPage = 1, totalPages = 1, p_totalAssignments = 1,
                             hasNext = False, hasPrev = False\<rparr>,
            l_data = [ex_published]\<rparr>"
    by (simp add: getAssignments_def run_query_def role_filter_def matches_def or_default_def
        ex_query_def ex_student_def ex_db_def ex_draft_def ex_published_def c)
  have rt: "role ex_teacher = ''teacher'' \<and> q_status ex_query_invalid \<notin> Some ` set status_names"
    by (simp add: ex_teacher_def ex_query_invalid_def status_names_def)
  have rs: "role ex_student = ''student''"
    by (simp add: ex_student_def)
  from getAssignments_role_filter [where d = ex_db and u = ex_teacher and q = ex_query_invalid] rt
  have e1: "getAssignments ex_db ex_teacher (ex_query_invalid\<lparr>q_status := None\<rparr>)
     = getAssignments ex_db ex_teacher ex_query_invalid"
    by blast
  from getAssignments_role_filter [where d = ex_db and u = ex_student and q = ex_query] rs
  have e2: "getAssignments ex_db ex_student (ex_query\<lparr>q_status := None\<rparr>)
     = getAssignments ex_db ex_student ex_query"
    by blast
  from t s e1 e2 show ?thesis
    by (intro conjI)
qed

section \<open>Analytics report\<close>

lemma sum_list_ones: "sum_list (map (\<lambda>s. 1) xs) = int (length xs)"
  by (induction xs) simp_all

lemma sum_list_indicator:
  "sum_list (map (\<lambda>s. if P s then 1 else 0) xs) = int (length (filter P xs))"
  by (induction xs) simp_all

lemma foldl_plus: "foldl (\<lambda>sum st. sum + f st) z xs = z + sum_list (map f xs)"
  for z :: int
  by (induction xs arbitrary: z) simp_all

lemma cond_grade_map: "map (\<lambda>s. if grade s \<noteq> None then grade s else None) ss = map grade ss"
  by (induction ss) auto

lemma group_stat_fields:
  "g_id (group_stat k ss) = k"
  "g_totalSubmissions (group_stat k ss) = int (length ss)"
  "g_reviewedSubmissions (group_stat k ss) = int (length (filter reviewed ss))"
  "g_averageGrade (group_stat k ss) = avg (map grade ss)"
  unfolding group_stat_def cond_grade_map
  by (simp_all add: sum_list_ones sum_list_indicator)

lemma find_group:
  "find (\<lambda>st. g_id st = k) (map (\<lambda>k. group_stat k (F k)) ks)
     = (if k \<in> set ks then Some (group_stat k (F k)) else None)"
  by (induction ks) (auto simp: group_stat_fields)

lemma length_filter_disjoint:
  assumes "\<And>x. x \<in> set xs \<Longrightarrow> \<not> (A x \<and> B x)"
  shows "length (filter A xs) + length (filter B xs) = length (filter (\<lambda>x. A x \<or> B x) xs)"
  using assms by (induction xs) auto

lemma sum_length_filter_keys:
  assumes "distinct ks"
  shows "(\<Sum>k\<leftarrow>ks. int (length (filter (\<lambda>s. f s = k \<and> P s) xs)))
       = int (length (filter (\<lambda>s. f s \<in> set ks \<and> P s) xs))"
  using assms
proof (induction ks)
  case Nil
  then show ?case by simp
next
  case (Cons k ks)
  have "length (filter (\<lambda>s. f s = k \<and> P s) xs) + length (filter (\<lambda>s. f s \<in> set ks \<and> P s) xs)
      = length (filter (\<lambda>s. (f s = k \<and> P s) \<or> (f s \<in> set ks \<and> P s)) xs)"
    using Cons.prems by (intro length_filter_disjoint) auto
  moreover have "(\<lambda>s. (f s = k \<and> P s) \<or> (f s \<in> set ks \<and> P s)) = (\<lambda>s. f s \<in> set (k # ks) \<and> P s)"
    by auto
  ultimately show ?case
    using Cons by simp
qed

text \<open>The submissions of one assignment, and the row the code computes from them.\<close>

lemma aggregate_find:
  assumes "k \<in> set ids"
  shows "find (\<lambda>st. g_id st = k) (aggregate d ids)
     = (if \<exists>s \<in> set (submissions d). assignmentId s = k
        then Some (group_stat k (filter (\<lambda>s. assignmentId s = k) (submissions d)))
        else None)"
proof -
  let ?m = "filter (\<lambda>s. assignmentId s \<in> set ids) (submissions d)"
  have 1: "filter (\<lambda>s. assignmentId s = k) ?m = filter (\<lambda>s. assignmentId s = k) (submissions d)"
    using assms by (auto intro: filter_cong)
  have 2: "k \<in> set (remdups (map assignmentId ?m)) \<longleftrightarrow> (\<exists>s \<in> set (submissions d). assignmentId s = k)"
    using assms by auto
  show ?thesis
    unfolding aggregate_def Let_def find_group 1 2 ..
qed

lemma analytics_row_eq:
  assumes "a_id a \<in> set ids"
  shows "analytics_row (aggregate d ids) a =
     (let ss = filter (\<lambda>s. assignmentId s = a_id a) (submissions d)
      in \<lparr>r_assignmentId = a_id a, r_title = title a, r_status = status a, r_dueDate = dueDate a,
          totalSubmissions = int (length ss),
          reviewedSubmissions = int (length (filter reviewed ss)),
          pendingReviews = int (length ss) - int (length (filter reviewed ss)),
          averageGrade = (case avg (map grade ss) of None \<Rightarrow> None
                          | Some x \<Rightarrow> if x = 0 then None else Some (round2 x))\<rparr>)"
proof (cases "\<exists>s \<in> set (submissions d). assignmentId s = a_id a")
  case True
  then show ?thesis
    unfolding analytics_row_def aggregate_find [OF assms]
    by (simp add: Let_def group_stat_fields)
next
  case False
  then have "filter (\<lambda>s. assignmentId s = a_id a) (submissions d) = []"
    by (auto simp: filter_empty_conv)
  with False show ?thesis
    unfolding analytics_row_def aggregate_find [OF assms]
    by (simp add: Let_def avg_def)
qed

lemma sum_groups:
  "(\<Sum>k\<leftarrow>remdups (map f m). int (length (filter (\<lambda>s. f s = k \<and> P s) m)))
     = int (length (filter P m))"
proof -
  have "(\<Sum>k\<leftarrow>remdups (map f m). int (length (filter (\<lambda>s. f s = k \<and> P s) m)))
      = int (length (filter (\<lambda>s. f s \<in> set (remdups (map f m)) \<and> P s) m))"
    by (rule sum_length_filter_keys) simp
  moreover have "filter (\<lambda>s. f s \<in> set (remdups (map f m)) \<and> P s) m = filter P m"
    by (rule filter_cong) auto
  ultimately show ?thesis by simp
qed

lemma groups_total:
  "sum_list (map g_totalSubmissions
      (map (\<lambda>k. group_stat k (filter (\<lambda>s. assignmentId s = k) m)) (remdups (map assignmentId m))))
     = int (length m)"
proof -
  have "sum_list (map g_totalSubmissions
      (map (\<lambda>k. group_stat k (filter (\<lambda>s. assignmentId s = k) m)) (remdups (map assignmentId m))))
      = (\<Sum>k\<leftarrow>remdups (map assignmentId m). int (length (filter (\<lambda>s. assignmentId s = k) m)))"
    by (simp add: comp_def group_stat_fields)
  also have "\<dots> = int (length m)"
    using sum_groups [where f = assignmentId and m = m and P = "\<lambda>s. True"] by simp
  finally show ?thesis .
qed

lemma groups_reviewed:
  "sum_list (map g_reviewedSubmissions
      (map (\<lambda>k. group_stat k (filter (\<lambda>s. assignmentId s = k) m)) (remdups (map assignmentId m))))
     = int (length (filter reviewed m))"
proof -
  have "sum_list (map g_reviewedSubmissions
      (map (\<lambda>k. group_stat k (filter (\<lambda>s. assignmentId s = k) m)) (remdups (map assignmentId m))))
      = (\<Sum>k\<leftarrow>remdups (map assignmentId m).
           int (length (filter (\<lambda>s. assignmentId s = k \<and> reviewed s) m)))"
    by (simp add: comp_def group_stat_fields)
  also have "\<dots> = int (length (filter reviewed m))"
    by (rule sum_groups)
  finally show ?thesis .
qed

lemma aggregate_total:
  "sum_list (map g_totalSubmissions (aggregate d ids))
     = int (length (filter (\<lambda>s. assignmentId s \<in> set ids) (submissions d)))"
  unfolding aggregate_def Let_def by (rule groups_total)

lemma aggregate_reviewed:
  "sum_list (map g_reviewedSubmissions (aggregate d ids))
     = int (length (filter reviewed (filter (\<lambda>s. assignmentId s \<in> set ids) (submissions d))))"
  unfolding aggregate_def Let_def by (rule groups_reviewed)

lemma rows_total:
  assumes "distinct (map a_id owned)"
  shows "sum_list (map totalSubmissions (map (analytics_row (aggregate d (map a_id owned))) owned))
     = int (length (filter (\<lambda>s. assignmentId s \<in> set (map a_id owned)) (submissions d)))"
proof -
  have "\<forall>a \<in> set owned. totalSubmissions (analytics_row (aggregate d (map a_id owned)) a)
      = int (length (filter (\<lambda>s. assignmentId s = a_id a) (submissions d)))"
    by (simp add: analytics_row_eq Let_def)
  then have "sum_list (map totalSubmissions (map (analytics_row (aggregate d (map a_id owned))) owned))
      = sum_list (map (\<lambda>a. int (length (filter (\<lambda>s. assignmentId s = a_id a) (submissions d)))) owned)"
    by (simp add: comp_def cong: map_cong)
  also have "\<dots> = (\<Sum>k\<leftarrow>map a_id owned.
      int (length (filter (\<lambda>s. assignmentId s = k) (submissions d))))"
    by (simp add: comp_def)
  also have "\<dots> = int (length (filter (\<lambda>s. assignmentId s \<in> set (map a_id owned)) (submissions d)))"
    using sum_length_filter_keys [OF assms, of assignmentId "\<lambda>s. True" "submissions d"] by simp
  finally show ?thesis .
qed

lemma rows_reviewed:
  assumes "distinct (map a_id owned)"
  shows "sum_list (map reviewedSubmissions (map (analytics_row (aggregate d (map a_id owned))) owned))
     = int (length (filter reviewed (filter (\<lambda>s. assignmentId s \<in> set (map a_id owned)) (submissions d))))"
proof -
  have "\<forall>a \<in> set owned. reviewedSubmissions (analytics_row (aggregate d (map a_id owned)) a)
      = int (length (filter (\<lambda>s. assignmentId s = a_id a \<and> reviewed s) (submissions d)))"
    by (simp add: analytics_row_eq Let_def)
  then have "sum_list (map reviewedSubmissions (map (analytics_row (aggregate d (map a_id owned))) owned))
      = sum_list (map (\<lambda>a. int (length (filter (\<lambda>s. assignmentId s = a_id a \<and> reviewed s)
          (submissions d)))) owned)"
    by (simp add: comp_def cong: map_cong)
  also have "\<dots> = (\<Sum>k\<leftarrow>map a_id owned.
      int (length (filter (\<lambda>s. assignmentId s = k \<and> reviewed s) (submissions d))))"
    by (simp add: comp_def)
  also have "\<dots> = int (length (filter (\<lambda>s. assignmentId s \<in> set (map a_id owned) \<and> reviewed s)
      (submissions d)))"
    by (rule sum_length_filter_keys [OF assms])
  also have "\<dots> = int (length (filter reviewed
      (filter (\<lambda>s. assignmentId s \<in> set (map a_id owned)) (submissions d))))"
    by simp
  finally show ?thesis .
qed

lemma getAnalytics_rows:
  "assignmentAnalytics (getAnalytics d u)
     = map (analytics_row (aggregate d (map a_id (filter (\<lambda>a. createdBy a = userId u) (assignments d)))))
         (filter (\<lambda>a. createdBy a = userId u) (assignments d))"
  by (simp add: getAnalytics_def Let_def)

lemma getAnalytics_overview:
  "an_overview (getAnalytics d u)
     = (let stats = aggregate d (map a_id (filter (\<lambda>a. createdBy a = userId u) (assignments d)))
        in \<lparr>totalAssignments = length (filter (\<lambda>a. createdBy a = userId u) (assignments d)),
            o_totalSubmissions = sum_list (map g_totalSubmissions stats),
            totalReviewed = sum_list (map g_reviewedSubmissions stats),
            o_pendingReviews = sum_list (map g_totalSubmissions stats)
                               - sum_list (map g_reviewedSubmissions stats)\<rparr>)"
  by (simp add: getAnalytics_def Let_def foldl_plus)

text \<open>
  Claim C8. With unique assignment ids, the report of a teacher has one row for each
  assignment the teacher created, in the store's order, carrying its id, title, status
  and due date; the row counts the submissions of that assignment and the reviewed ones
  among them, and \<open>pendingReviews\<close> is their difference; an assignment without
  submissions gets \<open>0, 0, 0\<close> and no average. The overview counts the owned assignments,
  its \<open>totalSubmissions\<close> and \<open>totalReviewed\<close> are the sums of the rows' columns, and
  its \<open>pendingReviews\<close> is their difference.
\<close>

theorem getAnalytics_report:
  assumes "distinct (map a_id (assignments d))"
  shows "map r_assignmentId (assignmentAnalytics (getAnalytics d u))
           = map a_id (filter (\<lambda>a. createdBy a = userId u) (assignments d)) \<and>
         map r_title (assignmentAnalytics (getAnalytics d u))
           = map title (filter (\<lambda>a. createdBy a = userId u) (assignments d)) \<and>
         map r_status (assignmentAnalytics (getAnalytics d u))
           = map status (filter (\<lambda>a. createdBy a = userId u) (assignments d)) \<and>
         map r_dueDate (assignmentAnalytics (getAnalytics d u))
           = map dueDate (filter (\<lambda>a. createdBy a = userId u) (assignments d)) \<and>
         (\<forall>ro \<in> set (assignmentAnalytics (getAnalytics d u)).
            totalSubmissions ro
              = int (length (filter (\<lambda>s. assignmentId s = r_assignmentId ro) (submissions d))) \<and>
            reviewedSubmissions ro
              = int (length (filter (\<lambda>s. assignmentId s = r_assignmentId ro \<and> reviewed s)
                      (submissions d))) \<and>
            pendingReviews ro = totalSubmissions ro - reviewedSubmissions ro \<and>
            ((\<forall>s \<in> set (submissions d). assignmentId s \<noteq> r_assignmentId ro) \<longrightarrow>
               totalSubmissions ro = 0 \<and> reviewedSubmissions ro = 0 \<and>
               pendingReviews ro = 0 \<and> averageGrade ro = None)) \<and>
         totalAssignments (an_overview (getAnalytics d u))
           = length (filter (\<lambda>a. createdBy a = userId u) (assignments d)) \<and>
         o_totalSubmissions (an_overview (getAnalytics d u))
           = sum_list (map totalSubmissions (assignmentAnalytics (getAnalytics d u))) \<and>
         totalReviewed (an_overview (getAnalytics d u))
           = sum_list (map reviewedSubmissions (assignmentAnalytics (getAnalytics d u))) \<and>
         o_pendingReviews (an_overview (getAnalytics d u))
           = o_totalSubmissions (an_overview (getAnalytics d u))
             - totalReviewed (an_overview (getAnalytics d u))"
proof -
  let ?owned = "filter (\<lambda>a. createdBy a = userId u) (assignments d)"
  let ?stats = "aggregate d (map a_id ?owned)"
  let ?rows = "assignmentAnalytics (getAnalytics d u)"
  have rows: "?rows = map (analytics_row ?stats) ?owned"
    by (rule getAnalytics_rows)
  have row: "\<forall>a \<in> set ?owned. analytics_row ?stats a =
     (let ss = filter (\<lambda>s. assignmentId s = a_id a) (submissions d)
      in \<lparr>r_assignmentId = a_id a, r_title = title a, r_status = status a, r_dueDate = dueDate a,
          totalSubmissions = int (length ss),
          reviewedSubmissions = int (length (filter reviewed ss)),
          pendingReviews = int (length ss) - int (length (filter reviewed ss)),
          averageGrade = (case avg (map grade ss) of None \<Rightarrow> None
                          | Some x \<Rightarrow> if x = 0 then None else Some (round2 x))\<rparr>)"
    by (intro ballI analytics_row_eq) simp
  have c1: "map r_assignmentId ?rows = map a_id ?owned"
    unfolding rows using row by (simp add: Let_def comp_def cong: map_cong)
  have c2: "map r_title ?rows = map title ?owned"
    unfolding rows using row by (simp add: Let_def comp_def cong: map_cong)
  have c3: "map r_status ?rows = map status ?owned"
    unfolding rows using row by (simp add: Let_def comp_def cong: map_cong)
  have c4: "map r_dueDate ?rows = map dueDate ?owned"
    unfolding rows using row by (simp add: Let_def comp_def cong: map_cong)
  have c5: "\<forall>ro \<in> set ?rows.
            totalSubmissions ro
              = int (length (filter (\<lambda>s. assignmentId s = r_assignmentId ro) (submissions d))) \<and>
            reviewedSubmissions ro
              = int (length (filter (\<lambda>s. assignmentId s = r_assignmentId ro \<and> reviewed s)
                      (submissions d))) \<and>
            pendingReviews ro = totalSubmissions ro - reviewedSubmissions ro \<and>
            ((\<forall>s \<in> set (submissions d). assignmentId s \<noteq> r_assignmentId ro) \<longrightarrow>
               totalSubmissions ro = 0 \<and> reviewedSubmissions ro = 0 \<and>
               pendingReviews ro = 0 \<and> averageGrade ro = None)"
  proof
    fix ro
    assume "ro \<in> set ?rows"
    then obtain a where a: "a \<in> set ?owned" and ro: "ro = analytics_row ?stats a"
      unfolding rows by auto
    have e: "(\<forall>s \<in> set (submissions d). assignmentId s \<noteq> a_id a) \<longrightarrow>
        filter (\<lambda>s. assignmentId s = a_id a) (submissions d) = []"
      by (auto simp: filter_empty_conv)
    show "totalSubmissions ro
              = int (length (filter (\<lambda>s. assignmentId s = r_assignmentId ro) (submissions d))) \<and>
            reviewedSubmissions ro
              = int (length (filter (\<lambda>s. assignmentId s = r_assignmentId ro \<and> reviewed s)
                      (submissions d))) \<and>
            pendingReviews ro = totalSubmissions ro - reviewedSubmissions ro \<and>
            ((\<forall>s \<in> set (submissions d). assignmentId s \<noteq> r_assignmentId ro) \<longrightarrow>
               totalSubmissions ro = 0 \<and> reviewedSubmissions ro = 0 \<and>
               pendingReviews ro = 0 \<and> averageGrade ro = None)"
      unfolding ro using row a e by (simp add: Let_def avg_def)
  qed
  have dist: "distinct (map a_id ?owned)"
    using assms by (rule distinct_map_filter)
  have c6: "totalAssignments (an_overview (getAnalytics d u)) = length ?owned"
    by (simp add: getAnalytics_overview Let_def)
  have c7: "o_totalSubmissions (an_overview (getAnalytics d u)) = sum_list (map totalSubmissions ?rows)"
    unfolding rows rows_total [OF dist]
    by (simp add: getAnalytics_overview Let_def aggregate_total)
  have c8: "totalReviewed (an_overview (getAnalytics d u)) = sum_list (map reviewedSubmissions ?rows)"
    unfolding rows rows_reviewed [OF dist]
    by (simp add: getAnalytics_overview Let_def aggregate_reviewed)
  have c9: "o_pendingReviews (an_overview (getAnalytics d u))
           = o_totalSubmissions (an_overview (getAnalytics d u))
             - totalReviewed (an_overview (getAnalytics d u))"
    by (simp add: getAnalytics_overview Let_def)
  from c1 c2 c3 c4 c5 c6 c7 c8 c9 show ?thesis
    by (intro conjI)
qed

lemma ex_report_eval:
  "getAnalytics ex_report_db ex_teacher =
     \<lparr>an_overview = \<lparr>totalAssignments = 2, o_totalSubmissions = 3, totalReviewed = 2,
                      o_pendingReviews = 1\<rparr>,
      assignmentAnalytics =
        [\<lparr>r_assignmentId = 11, r_title = ''Quiz'', r_status = Published, r_dueDate = 500,
          totalSubmissions = 3, reviewedSubmissions = 2, pendingReviews = 1,
          averageGrade = Some 85\<rparr>,
         \<lparr>r_assignmentId = 10, r_title = ''Essay'', r_status = Draft, r_dueDate = 500,
          totalSubmissions = 0, reviewedSubmissions = 0, pendingReviews = 0,
          averageGrade = None\<rparr>]\<rparr>"
  by (simp add: getAnalytics_def aggregate_def analytics_row_def group_stat_def
      Let_def ex_report_db_def ex_teacher_def ex_published_def ex_draft_def
      ex_submission_def)
    (simp add: avg_def round2_def floor_eq_iff)

theorem getAnalytics_report_witness:
  "distinct (map a_id (assignments ex_report_db)) \<and>
   map r_assignmentId (assignmentAnalytics (getAnalytics ex_report_db ex_teacher)) = [11, 10] \<and>
   o_totalSubmissions (an_overview (getAnalytics ex_report_db ex_teacher)) = 3 \<and>
   sum_list (map totalSubmissions (assignmentAnalytics (getAnalytics ex_report_db ex_teacher))) = 3 \<and>
   totalReviewed (an_overview (getAnalytics ex_report_db ex_teacher)) = 2 \<and>
   o_pendingReviews (an_overview (getAnalytics ex_report_db ex_teacher)) = 1"
proof -
  have dist: "distinct (map a_id (assignments ex_report_db))"
    by (simp add: ex_report_db_def ex_published_def ex_draft_def)
  have s: "sum_list (map totalSubmissions
      (assignmentAnalytics (getAnalytics ex_report_db ex_teacher))) = 3"
    by (simp add: ex_report_eval)
  from getAnalytics_report [OF dist, where u = ex_teacher]
  have "o_totalSubmissions (an_overview (getAnalytics ex_report_db ex_teacher))
      = sum_list (map totalSubmissions (assignmentAnalytics (getAnalytics ex_report_db ex_teacher)))"
    by (elim conjE)
  with s have t: "o_totalSubmissions (an_overview (getAnalytics ex_report_db ex_teacher)) = 3"
    by simp
  from dist s t show ?thesis
    by (simp add: ex_report_eval)
qed

text \<open>
  Claim C5 at a submission graded \<open>0\<close>. The group's average, the mean of the non-null
  grades, is \<open>0\<close>; the row's \<open>averageGrade\<close> is \<open>null\<close> all the same, because the row is
  built with a truthiness test on the average.
\<close>

theorem getAnalytics_zero_average:
  "map grade (submissions ex_zero_db) = [Some 0] \<and>
   map g_averageGrade (aggregate ex_zero_db [11]) = [Some 0] \<and>
   assignmentAnalytics (getAnalytics ex_zero_db ex_teacher) =
     [\<lparr>r_assignmentId = 11, r_title = ''Quiz'', r_status = Published, r_dueDate = 500,
       totalSubmissions = 1, reviewedSubmissions = 1, pendingReviews = 0,
       averageGrade = None\<rparr>]"
  by (simp add: getAnalytics_def aggregate_def analytics_row_def group_stat_def avg_def
      round2_def Let_def ex_zero_db_def ex_teacher_def ex_published_def ex_submission_def)

end
